theory Spec2Isabelle
  imports Complex_Main "HOL-Library.Word"
begin

section \<open>JavaScript values\<close>

text \<open>
  The application is two revisions of one browser script: \<^verbatim>\<open>src/js/main.js\<close> (the first
  revision, which displays the label directly) and the later revision with the busy flag and
  the periodic status display. Functions of the first revision that share a name with the
  later one carry the suffix \<open>_main\<close>.

  An array read out of range and an unassigned variable give \<^verbatim>\<open>undefined\<close>, so every such
  read is a value of \<open>'a js\<close>. A number is a finite value, an infinity or NaN; a finite value
  is written by the rational it denotes, and no zero carries a sign. An arithmetic result is
  rounded to the nearest double, a store into a \<^verbatim>\<open>Float32Array\<close> to the nearest 32-bit float,
  ties to the even significand in both. The pixel buffer is a \<^verbatim>\<open>Uint8ClampedArray\<close>, a list
  of 8-bit words.
\<close>

datatype 'a js = Undefined | Val 'a

datatype number = NaN | NegInf | Fin rat | PosInf

type_synonym byte = "8 word"

datatype exn = TypeError string | Error string

datatype console_entry = Mismatching_data_sizes nat nat | Logged exn

text \<open>\<^verbatim>\<open>arr[i]\<close>: the element, or \<^verbatim>\<open>undefined\<close> at and beyond the length.\<close>

definition idx :: "'a list \<Rightarrow> nat \<Rightarrow> 'a js" where
  "idx arr i = (if i < length arr then Val (arr ! i) else Undefined)"

text \<open>Reading an array whose elements may themselves be \<^verbatim>\<open>undefined\<close>.\<close>

definition idx_js :: "'a js list \<Rightarrow> nat \<Rightarrow> 'a js" where
  "idx_js arr i = (if i < length arr then arr ! i else Undefined)"

text \<open>Conversion of an operand to a number: \<^verbatim>\<open>undefined\<close> becomes NaN.\<close>

fun ToNumber :: "number js \<Rightarrow> number" where
  "ToNumber Undefined = NaN"
| "ToNumber (Val v) = v"

text \<open>The comparison \<^verbatim>\<open>a > b\<close> on numbers: false as soon as one side is NaN.\<close>

fun num_gt :: "number \<Rightarrow> number \<Rightarrow> bool" where
  "num_gt NaN b = False"
| "num_gt a NaN = False"
| "num_gt (Fin a) (Fin b) = (b < a)"
| "num_gt PosInf b = (b \<noteq> PosInf)"
| "num_gt a NegInf = (a \<noteq> NegInf)"
| "num_gt a b = False"

definition js_gt :: "number js \<Rightarrow> number js \<Rightarrow> bool" where
  "js_gt a b = num_gt (ToNumber a) (ToNumber b)"

text \<open>
  Rounding of a rational to a binary floating-point format with \<open>p\<close> bits of significand and
  exponents from \<open>emin\<close> to \<open>emax\<close>. The exponent of \<open>x\<close> is the greatest \<open>e \<le> emax\<close> with
  \<open>2 ^ e \<le> \<bar>x\<bar>\<close>, and \<open>emin\<close> below the normal range; \<open>x\<close> is rounded to a multiple of
  \<open>2 ^ (e - p + 1)\<close>, a tie going to the even multiple; a result of \<open>2 ^ (emax + 1)\<close> or more
  is an infinity.
\<close>

definition round_half_even :: "rat \<Rightarrow> int" where
  "round_half_even x =
     (let f = \<lfloor>x\<rfloor>; d = x - of_int f
      in if d < 1 / 2 then f else if 1 / 2 < d then f + 1 else if even f then f else f + 1)"

fun exp_search :: "nat \<Rightarrow> int \<Rightarrow> rat \<Rightarrow> int" where
  "exp_search 0 e x = e"
| "exp_search (Suc n) e x = (if 2 powi e \<le> x then e else exp_search n (e - 1) x)"

definition round_binary :: "nat \<Rightarrow> int \<Rightarrow> int \<Rightarrow> rat \<Rightarrow> number" where
  "round_binary p emin emax x =
     (if x = 0 then Fin 0
      else let e = exp_search (nat (emax - emin)) emax \<bar>x\<bar>;
               q = 2 powi (e - int p + 1);
               y = of_int (round_half_even (x / q)) * q
           in if 2 powi (emax + 1) \<le> \<bar>y\<bar> then (if 0 < x then PosInf else NegInf) else Fin y)"

text \<open>The nearest double (53 bits, exponents from -1022 to 1023).\<close>

definition round_double :: "rat \<Rightarrow> number" where
  "round_double x = round_binary 53 (- 1022) 1023 x"

text \<open>\<^verbatim>\<open>Math.fround\<close>, the nearest 32-bit float (24 bits, exponents from -126 to 127).\<close>

fun fround :: "number \<Rightarrow> number" where
  "fround (Fin x) = round_binary 24 (- 126) 127 x"
| "fround v = v"

text \<open>
  \<^verbatim>\<open>v / 255.0\<close> for an element of the transposed pixel data: a byte gives the quotient
  rounded to a double, a missing element (\<^verbatim>\<open>undefined\<close>) gives NaN. The divisor is a non-zero
  constant that is a double itself.
\<close>

fun js_div :: "byte js \<Rightarrow> rat \<Rightarrow> number" where
  "js_div (Val b) d = round_double (rat_of_nat (unat b) / d)"
| "js_div Undefined d = NaN"

text \<open>A template literal \<^verbatim>\<open>`${v}`\<close> for a string or \<^verbatim>\<open>undefined\<close>.\<close>

fun template :: "string js \<Rightarrow> string" where
  "template Undefined = ''undefined''"
| "template (Val s) = s"

section \<open>Global constants\<close>

definition WIDTH :: nat where
  "WIDTH = 224"

definition DIMS :: "nat list" where
  "DIMS = [1, 3, WIDTH, WIDTH]"

definition MAX_LENGTH :: nat where
  "MAX_LENGTH = DIMS ! 0 * DIMS ! 1 * DIMS ! 2 * DIMS ! 3"

definition MAX_SIGNED_VALUE :: rat where
  "MAX_SIGNED_VALUE = 255"

section \<open>Tensors and the Tensor Builder\<close>

text \<open>
  \<^verbatim>\<open>new ort.Tensor(type, data, dims)\<close> belongs to the external runtime: it packages its three
  arguments, and throws when the product of \<open>dims\<close> is not the length of \<open>data\<close>.
\<close>

record tensor =
  tensor_type :: string
  tensor_data :: "number list"
  tensor_dims :: "nat list"

definition ort_Tensor :: "string \<Rightarrow> number list \<Rightarrow> nat list \<Rightarrow> exn + tensor" where
  "ort_Tensor type data dims =
     (if prod_list dims \<noteq> length data
      then Inl (Error ''Tensor size does not match data length'')
      else Inr \<lparr>tensor_type = type, tensor_data = data, tensor_dims = dims\<rparr>)"

text \<open>
  The transposition loop \<^verbatim>\<open>for (let i = 0; i < data.length; i += 4)\<close>, pushing
  \<^verbatim>\<open>data[i]\<close>, \<^verbatim>\<open>data[i + 1]\<close>, \<^verbatim>\<open>data[i + 2]\<close> onto \<open>R\<close>, \<open>G\<close>, \<open>B\<close>.
\<close>

function transpose_loop ::
  "byte list \<Rightarrow> nat \<Rightarrow> byte js list \<times> byte js list \<times> byte js list
     \<Rightarrow> byte js list \<times> byte js list \<times> byte js list" where
  "transpose_loop data i (R, G, B) =
     (if i < length data
      then transpose_loop data (i + 4)
             (R @ [idx data i], G @ [idx data (i + 1)], B @ [idx data (i + 2)])
      else (R, G, B))"
  by pat_completeness auto
termination
  by (relation "measure (\<lambda>(data, i, acc). length data - i)") auto

text \<open>
  A store into a \<^verbatim>\<open>Float32Array\<close>: the value is rounded to a 32-bit float; an index at or
  beyond the length is ignored, the array never grows.
\<close>

definition f32_store :: "number list \<Rightarrow> nat \<Rightarrow> number \<Rightarrow> number list" where
  "f32_store a i v = (if i < length a then a[i := fround v] else a)"

text \<open>The conversion loop \<^verbatim>\<open>for (i = 0; i < l; i++) float32Data[i] = transposedData[i] / d\<close>.\<close>

function convert_loop ::
  "byte js list \<Rightarrow> rat \<Rightarrow> nat \<Rightarrow> nat \<Rightarrow> number list \<Rightarrow> number list" where
  "convert_loop transposedData d l i float32Data =
     (if i < l
      then convert_loop transposedData d l (i + 1)
             (f32_store float32Data i (js_div (idx_js transposedData i) d))
      else float32Data)"
  by pat_completeness auto
termination
  by (relation "measure (\<lambda>(td, d, l, i, out). l - i)") auto

text \<open>\<^verbatim>\<open>new Float32Array(n)\<close>: \<open>n\<close> zeros.\<close>

definition new_Float32Array :: "nat \<Rightarrow> number list" where
  "new_Float32Array n = replicate n (Fin 0)"

text \<open>
  The later revision of \<^verbatim>\<open>imageDataToTensor(data, dims)\<close>. Only the tensor constructor can
  throw.
\<close>

definition imageDataToTensor :: "byte list \<Rightarrow> nat list \<Rightarrow> exn + tensor" where
  "imageDataToTensor data dims =
     (case transpose_loop data 0 ([], [], []) of (R, G, B) \<Rightarrow>
        let transposedData = R @ G @ B;
            l = length transposedData;
            float32Data = convert_loop transposedData MAX_SIGNED_VALUE l 0
                            (new_Float32Array MAX_LENGTH)
        in ort_Tensor ''float32'' float32Data dims)"

text \<open>
  The first revision keeps the resized pixel buffer in the global \<^verbatim>\<open>imageData\<close>, checks the
  length of the argument with the alpha bytes filtered out, and then transposes the global,
  not the argument. \<^verbatim>\<open>imageData.length\<close> on an unassigned global throws a TypeError.
\<close>

record main_state =
  imageData :: "byte list js"
  main_console :: "console_entry list"
  main_target_innerHTML :: string

text \<open>\<^verbatim>\<open>data.filter((v, i) => i % 4 != 3)\<close>.\<close>

definition filter_alpha :: "byte list \<Rightarrow> byte list" where
  "filter_alpha data =
     map fst (filter (\<lambda>(v, i). i mod 4 \<noteq> 3) (zip data [0..<length data]))"

definition imageDataToTensor_main ::
  "byte list \<Rightarrow> nat list \<Rightarrow> main_state \<Rightarrow> (exn + tensor) \<times> main_state" where
  "imageDataToTensor_main data dims g =
     (let filteredData = filter_alpha data;
          g1 = (if MAX_LENGTH \<noteq> length filteredData
                then g\<lparr>main_console := main_console g @
                         [Mismatching_data_sizes MAX_LENGTH (length filteredData)]\<rparr>
                else g)
      in case imageData g1 of
           Undefined \<Rightarrow> (Inl (TypeError ''imageData is undefined''), g1)
         | Val img \<Rightarrow>
             (case transpose_loop img 0 ([], [], []) of (R, G, B) \<Rightarrow>
                let processedData = R @ G @ B;
                    l = length processedData;
                    tensorData = convert_loop processedData 255 l 0
                                   (new_Float32Array MAX_LENGTH)
                in (ort_Tensor ''float32'' tensorData dims, g1)))"

section \<open>The Classifier Decoder\<close>

text \<open>
  \<^verbatim>\<open>argMax(arr)\<close> of the later revision: the scan starts at index 1 with \<^verbatim>\<open>arr[0]\<close> as the
  candidate and returns \<^verbatim>\<open>[max, maxIndex]\<close>.
\<close>

function argMax_loop :: "number list \<Rightarrow> nat \<Rightarrow> number js \<times> nat \<Rightarrow> number js \<times> nat" where
  "argMax_loop arr i (maxv, maxIndex) =
     (if i < length arr
      then (if js_gt (idx arr i) maxv
            then argMax_loop arr (i + 1) (idx arr i, i)
            else argMax_loop arr (i + 1) (maxv, maxIndex))
      else (maxv, maxIndex))"
  by pat_completeness auto
termination
  by (relation "measure (\<lambda>(arr, i, acc). length arr - i)") auto

definition argMax :: "number list \<Rightarrow> number js \<times> nat" where
  "argMax arr = argMax_loop arr 1 (idx arr 0, 0)"

text \<open>
  \<^verbatim>\<open>indexOfMax(arr)\<close> of the first revision also records every index at which the candidate
  changed, and returns \<^verbatim>\<open>[maxIndex, sorted.reverse()]\<close>.
\<close>

function indexOfMax_loop ::
  "number list \<Rightarrow> nat \<Rightarrow> nat list \<times> number js \<times> nat \<Rightarrow> nat list \<times> number js \<times> nat" where
  "indexOfMax_loop arr i (sorted_idx, maxv, maxIndex) =
     (if i < length arr
      then (if js_gt (idx arr i) maxv
            then indexOfMax_loop arr (i + 1) (sorted_idx @ [i], idx arr i, i)
            else indexOfMax_loop arr (i + 1) (sorted_idx, maxv, maxIndex))
      else (sorted_idx, maxv, maxIndex))"
  by pat_completeness auto
termination
  by (relation "measure (\<lambda>(arr, i, acc). length arr - i)") auto

definition indexOfMax :: "number list \<Rightarrow> nat \<times> nat list" where
  "indexOfMax arr =
     (case indexOfMax_loop arr 1 ([], idx arr 0, 0) of
        (sorted_idx, maxv, maxIndex) \<Rightarrow> (maxIndex, rev sorted_idx))"

section \<open>The inference engine boundary and the run operation\<close>

text \<open>
  The engine is external. \<^verbatim>\<open>ort.InferenceSession.create(path)\<close> either throws or gives a session;
  \<^verbatim>\<open>session.run(feeds)\<close> either throws or gives the named outputs, each with its data. Both are
  parameters of the model, so a statement about every engine is a statement about every
  function of these types. The table \<^verbatim>\<open>classes\<close> is loaded from a data file and is a parameter
  too.
\<close>

type_synonym feeds = "string \<rightharpoonup> tensor"

type_synonym results = "string \<rightharpoonup> number list"

type_synonym session = "feeds \<Rightarrow> exn + results"

type_synonym engine = "string \<Rightarrow> exn + session"

record app_state =
  predictedClass :: "string js"
  isRunning :: bool
  console :: "console_entry list"
  target_innerHTML :: string

text \<open>The state when the script has loaded; the page's own content of the target is \<open>html\<close>.\<close>

definition initial_state :: "string \<Rightarrow> app_state" where
  "initial_state html =
     \<lparr>predictedClass = Undefined, isRunning = False, console = [], target_innerHTML = html\<rparr>"

text \<open>The handler of the file input: with a file selected the busy flag is set.\<close>

definition file_in_onchange :: "bool \<Rightarrow> app_state \<Rightarrow> app_state" where
  "file_in_onchange has_files s = (if has_files then s\<lparr>isRunning := True\<rparr> else s)"

text \<open>
  The body of the \<^verbatim>\<open>try\<close> block of \<^verbatim>\<open>run\<close>. The function is asynchronous and reads no global
  before its two awaited calls have returned; \<open>s\<close> is the state at that moment. Nothing is
  assigned before the last statement that can throw, so a throw leaves the state as it was.
  \<^verbatim>\<open>results.output1.data\<close> throws a TypeError when the engine gave no output of that name.
\<close>

definition run_try :: "engine \<Rightarrow> string list \<Rightarrow> tensor \<Rightarrow> app_state \<Rightarrow> exn + app_state" where
  "run_try ort classes inputTensor s =
     (case ort ''src/assets/model.onnx'' of
        Inl e \<Rightarrow> Inl e
      | Inr session \<Rightarrow>
          (case session [''input1'' \<mapsto> inputTensor] of
             Inl e \<Rightarrow> Inl e
           | Inr results \<Rightarrow>
               (case results ''output1'' of
                  None \<Rightarrow> Inl (TypeError ''results.output1 is undefined'')
                | Some output \<Rightarrow>
                    (case argMax output of (maxValue, maxIndex) \<Rightarrow>
                       Inr (s\<lparr>predictedClass := Val (template (idx classes maxIndex)),
                              isRunning := False\<rparr>)))))"

text \<open>\<^verbatim>\<open>run\<close> with its \<^verbatim>\<open>catch\<close>: \<open>Inl\<close> would be an exception leaving \<^verbatim>\<open>run\<close>.\<close>

definition run :: "engine \<Rightarrow> string list \<Rightarrow> tensor \<Rightarrow> app_state \<Rightarrow> exn + app_state" where
  "run ort classes inputTensor s =
     (case run_try ort classes inputTensor s of
        Inr s' \<Rightarrow> Inr s'
      | Inl e \<Rightarrow> Inr (s\<lparr>console := console s @ [Logged e], isRunning := False\<rparr>))"

text \<open>\<^verbatim>\<open>run\<close> of the first revision writes the label into the page itself.\<close>

definition run_main_try ::
  "engine \<Rightarrow> string list \<Rightarrow> tensor \<Rightarrow> main_state \<Rightarrow> exn + main_state" where
  "run_main_try ort classes inputTensor g =
     (case ort ''src/assets/model.onnx'' of
        Inl e \<Rightarrow> Inl e
      | Inr session \<Rightarrow>
          (case session [''input1'' \<mapsto> inputTensor] of
             Inl e \<Rightarrow> Inl e
           | Inr results \<Rightarrow>
               (case results ''output1'' of
                  None \<Rightarrow> Inl (TypeError ''results.output1 is undefined'')
                | Some output \<Rightarrow>
                    (case indexOfMax output of (maxIdx, sortedMaxIdx) \<Rightarrow>
                       Inr (g\<lparr>main_target_innerHTML := template (idx classes maxIdx)\<rparr>)))))"

definition run_main ::
  "engine \<Rightarrow> string list \<Rightarrow> tensor \<Rightarrow> main_state \<Rightarrow> exn + main_state" where
  "run_main ort classes inputTensor g =
     (case run_main_try ort classes inputTensor g of
        Inr g' \<Rightarrow> Inr g'
      | Inl e \<Rightarrow> Inr (g\<lparr>main_console := main_console g @ [Logged e]\<rparr>))"

section \<open>The periodic status display\<close>

text \<open>
  The callback given to \<^verbatim>\<open>window.setInterval\<close>. \<^verbatim>\<open>predictedClass !== "undefined"\<close> is strict
  inequality with the string, which the value \<^verbatim>\<open>undefined\<close> satisfies.
\<close>

definition setInterval_callback :: "app_state \<Rightarrow> app_state" where
  \<open>setInterval_callback s =
     (if isRunning s
      then s\<lparr>target_innerHTML :=
               ''<div class="align-self-start"><img src="src/images/loading.gif" class="loading"/>''\<rparr>
      else if predictedClass s \<noteq> Val ''undefined''
      then s\<lparr>target_innerHTML := ''<h3>I think it's a '' @ template (predictedClass s) @ ''!''\<rparr>
      else s\<lparr>target_innerHTML := ''''\<rparr>)\<close>

section \<open>Notions used in the statements\<close>

text \<open>
  The number of passes of the transposition loop over a buffer, the three planes it leaves,
  their concatenation, and the array the conversion loop then fills.
\<close>

definition pixels :: "byte list \<Rightarrow> nat" where
  "pixels data = (length data + 3) div 4"

definition channel :: "byte list \<Rightarrow> nat \<Rightarrow> byte js list" where
  "channel data c = map (\<lambda>j. idx data (4 * j + c)) [0..<pixels data]"

definition planar :: "byte list \<Rightarrow> byte js list" where
  "planar data = channel data 0 @ channel data 1 @ channel data 2"

definition float32_of :: "byte list \<Rightarrow> rat \<Rightarrow> number list" where
  "float32_of data d =
     convert_loop (planar data) d (length (planar data)) 0 (new_Float32Array MAX_LENGTH)"

text \<open>A \<open>WIDTH \<times> WIDTH\<close> image whose pixels all are \<open>(r, g, b, a)\<close>.\<close>

definition solid_image :: "byte \<Rightarrow> byte \<Rightarrow> byte \<Rightarrow> byte \<Rightarrow> byte list" where
  "solid_image r g b a = concat (replicate (WIDTH * WIDTH) [r, g, b, a])"

text \<open>
  The state of the scan of \<^verbatim>\<open>argMax\<close> before index \<open>i\<close> with candidate index \<open>m\<close>: no
  scanned element compares greater than the candidate, no element before the candidate
  equals it, and without NaN the candidate is strictly greater than every element before it.
\<close>

definition scanned :: "number list \<Rightarrow> nat \<Rightarrow> nat \<Rightarrow> bool" where
  "scanned arr i m \<longleftrightarrow>
     (\<forall>j < i. \<not> num_gt (arr ! j) (arr ! m))
     \<and> (\<forall>j < m. arr ! j \<noteq> arr ! m)
     \<and> (NaN \<notin> set arr \<longrightarrow> (\<forall>j < m. num_gt (arr ! m) (arr ! j)))"

text \<open>
  The notion of the index that is to be decoded: \<open>m\<close> is the first index whose element no
  element of the vector exceeds under the strict comparison.
\<close>

definition first_maximal :: "number list \<Rightarrow> nat \<Rightarrow> bool" where
  "first_maximal arr m \<longleftrightarrow>
     m < length arr
     \<and> list_all (\<lambda>j. \<not> num_gt (arr ! j) (arr ! m)) [0..<length arr]
     \<and> list_all (\<lambda>j. list_ex (\<lambda>k. num_gt (arr ! k) (arr ! j)) [0..<length arr]) [0..<m]"

text \<open>Engines and a tensor at which the statements are instantiated.\<close>

definition failing_session :: session where
  "failing_session feeds = Inl (Error ''invalid input shape'')"

definition failing_run :: engine where
  "failing_run path = Inr failing_session"

definition constant_session :: "number list \<Rightarrow> session" where
  "constant_session output feeds = Inr [''output1'' \<mapsto> output]"

definition constant_engine :: "number list \<Rightarrow> engine" where
  "constant_engine output path = Inr (constant_session output)"

text \<open>The state when a second image has been chosen after a first one was labelled.\<close>

definition second_request :: app_state where
  "second_request =
     file_in_onchange True ((initial_state '''')\<lparr>predictedClass := Val ''tench''\<rparr>)"

definition blank_tensor :: tensor where
  "blank_tensor = \<lparr>tensor_type = ''float32'', tensor_data = new_Float32Array MAX_LENGTH,
                    tensor_dims = DIMS\<rparr>"

declare transpose_loop.simps [simp del] convert_loop.simps [simp del]
declare argMax_loop.simps [simp del] indexOfMax_loop.simps [simp del]

section \<open>Rounding\<close>

lemma two_powi_less_cancel: "(2::rat) powi a < 2 powi b \<Longrightarrow> a < b"
proof (rule ccontr)
  assume lt: "(2::rat) powi a < 2 powi b" and "\<not> a < b"
  then have "b \<le> a" by simp
  then have "(2::rat) powi b \<le> 2 powi a" by (intro power_int_increasing) simp_all
  with lt show False by simp
qed

lemma two_powi_le_cancel: "(2::rat) powi a \<le> 2 powi b \<Longrightarrow> a \<le> b"
proof (rule ccontr)
  assume le: "(2::rat) powi a \<le> 2 powi b" and "\<not> a \<le> b"
  then have "b < a" by simp
  then have "(2::rat) powi b < 2 powi a" by (intro power_int_strict_increasing) simp_all
  with le show False by simp
qed

lemma exp_search_cases:
  "2 powi (exp_search n e x) \<le> x \<or> exp_search n e x = e - int n"
proof (induction n arbitrary: e)
  case 0
  then show ?case by simp
next
  case (Suc n)
  from Suc[of "e - 1"] show ?case by auto
qed

lemma exp_search_eq:
  "k \<le> e \<Longrightarrow> e - k \<le> int n \<Longrightarrow> 2 powi k \<le> x \<Longrightarrow> x < 2 powi (k + 1) \<Longrightarrow> exp_search n e x = k"
proof (induction n arbitrary: e)
  case 0
  then show ?case by simp
next
  case (Suc n)
  show ?case
  proof (cases "2 powi e \<le> x")
    case True
    with Suc.prems(4) have "(2::rat) powi e < 2 powi (k + 1)" by simp
    then have "e < k + 1" by (rule two_powi_less_cancel)
    with Suc.prems(1) have "e = k" by simp
    with True show ?thesis by simp
  next
    case False
    with Suc.prems(3) have "e \<noteq> k" by auto
    with Suc.prems have "k \<le> e - 1" "e - 1 - k \<le> int n" by simp_all
    from Suc.IH[OF this Suc.prems(3,4)] False show ?thesis by simp
  qed
qed

lemma round_half_even_of_int: "round_half_even (of_int n) = n"
  by (simp add: round_half_even_def)

lemma round_half_even_nonneg: "0 \<le> x \<Longrightarrow> 0 \<le> round_half_even x"
  by (auto simp: round_half_even_def Let_def)

lemma round_half_even_le:
  assumes "x \<le> of_int N"
  shows "round_half_even x \<le> N"
proof -
  have fl: "\<lfloor>x\<rfloor> \<le> N" using assms by (simp add: floor_le_iff)
  show ?thesis
  proof (cases "\<lfloor>x\<rfloor> = N")
    case True
    then have "of_int N \<le> x" by (metis of_int_floor_le)
    with assms have "x = of_int N" by simp
    then show ?thesis by (simp add: round_half_even_of_int)
  next
    case False
    with fl have "\<lfloor>x\<rfloor> + 1 \<le> N" by simp
    then show ?thesis using fl by (auto simp: round_half_even_def Let_def)
  qed
qed

lemma round_binary_unit:
  assumes x: "0 \<le> x" "x \<le> 1" and e: "emin \<le> 0" "0 \<le> emax" and p: "0 < p"
  shows "\<exists>y. round_binary p emin emax x = Fin y \<and> 0 \<le> y \<and> y \<le> 1"
proof (cases "x = 0")
  case True
  then show ?thesis by (simp add: round_binary_def)
next
  case False
  define ex where "ex = exp_search (nat (emax - emin)) emax \<bar>x\<bar>"
  define q :: rat where "q = 2 powi (ex - int p + 1)"
  define y where "y = of_int (round_half_even (x / q)) * q"
  have qpos: "0 < q" by (simp add: q_def)
  have ex0: "ex \<le> 0"
  proof -
    from exp_search_cases[of "nat (emax - emin)" emax "\<bar>x\<bar>"]
    consider "2 powi ex \<le> \<bar>x\<bar>" | "ex = emax - int (nat (emax - emin))"
      unfolding ex_def by blast
    then show ?thesis
    proof cases
      case 1
      with x have "(2::rat) powi ex \<le> 2 powi 0" by simp
      then show ?thesis by (rule two_powi_le_cancel)
    next
      case 2
      with e show ?thesis by simp
    qed
  qed
  define N :: int where "N = 2 ^ nat (int p - 1 - ex)"
  have Nq: "of_int N * q = 1"
  proof -
    have "of_int N = (2::rat) powi (int p - 1 - ex)"
      using ex0 p by (simp add: N_def power_int_nonneg_exp)
    moreover have "(2::rat) powi (int p - 1 - ex) * 2 powi (ex - int p + 1)
                   = 2 powi ((int p - 1 - ex) + (ex - int p + 1))"
      by (subst power_int_add) simp_all
    ultimately show ?thesis unfolding q_def by simp
  qed
  have "x / q \<le> of_int N"
  proof -
    have "x \<le> of_int N * q" using x Nq by simp
    then show ?thesis using qpos by (simp add: pos_divide_le_eq)
  qed
  then have "round_half_even (x / q) \<le> N" by (rule round_half_even_le)
  then have "(of_int (round_half_even (x / q)) :: rat) \<le> of_int N" by simp
  then have "y \<le> of_int N * q" unfolding y_def using qpos by (simp add: mult_right_mono)
  then have y1: "y \<le> 1" using Nq by simp
  have "0 \<le> x / q" using x qpos by simp
  then have "0 \<le> round_half_even (x / q)" by (rule round_half_even_nonneg)
  then have y0: "0 \<le> y" unfolding y_def using qpos by simp
  have "(1::rat) < 2 powi (emax + 1)" using e by (intro one_less_power_int) simp_all
  with y0 y1 have "\<not> 2 powi (emax + 1) \<le> \<bar>y\<bar>" by simp
  then have "round_binary p emin emax x = Fin y"
    using False by (simp add: round_binary_def Let_def ex_def[symmetric] q_def[symmetric] y_def[symmetric])
  with y0 y1 show ?thesis by blast
qed

lemma round_half_even_near:
  assumes "\<bar>x - of_int n\<bar> < 1 / 2"
  shows "round_half_even x = n"
proof -
  have lo: "of_int n - 1 / 2 < x" and hi: "x < of_int n + 1 / 2"
    using assms by linarith+
  show ?thesis
  proof (cases "of_int n \<le> x")
    case True
    then have "\<lfloor>x\<rfloor> = n" using hi by (intro floor_unique) simp_all
    then show ?thesis using hi by (simp add: round_half_even_def Let_def)
  next
    case False
    then have "\<lfloor>x\<rfloor> = n - 1" using lo by (intro floor_unique) simp_all
    then show ?thesis using lo False by (simp add: round_half_even_def Let_def)
  qed
qed

lemma round_binary_value:
  assumes "x \<noteq> 0" "emin \<le> k" "k \<le> emax" "2 powi k \<le> \<bar>x\<bar>" "\<bar>x\<bar> < 2 powi (k + 1)"
    and near: "\<bar>x / 2 powi (k - int p + 1) - of_int n\<bar> < 1 / 2"
    and fin: "\<bar>of_int n * (2::rat) powi (k - int p + 1)\<bar> < 2 powi (emax + 1)"
  shows "round_binary p emin emax x = Fin (of_int n * 2 powi (k - int p + 1))"
proof -
  have "exp_search (nat (emax - emin)) emax \<bar>x\<bar> = k"
    using assms(2-5) by (intro exp_search_eq) simp_all
  moreover have "round_half_even (x / 2 powi (k - int p + 1)) = n"
    using near by (rule round_half_even_near)
  ultimately show ?thesis using assms(1) fin
    by (simp add: round_binary_def Let_def)
qed

lemma round_binary_one:
  assumes "emin \<le> 0" "0 \<le> emax" "0 < p"
  shows "round_binary p emin emax 1 = Fin 1"
proof -
  have inv: "(2::rat) powi (0 - int p + 1) * 2 powi (int p - 1) = 1"
  proof -
    have "(2::rat) powi (0 - int p + 1) * 2 powi (int p - 1)
          = 2 powi ((0 - int p + 1) + (int p - 1))"
      by (subst power_int_add) simp_all
    then show ?thesis by simp
  qed
  have n: "(2::rat) powi (int p - 1) = of_int (2 ^ (p - 1))"
    using assms(3) by (simp add: power_int_nonneg_exp nat_diff_distrib')
  have pos: "(0::rat) < 2 powi (0 - int p + 1)" by simp
  have div: "(1::rat) / 2 powi (0 - int p + 1) = of_int (2 ^ (p - 1))"
    using inv pos unfolding n by (simp add: field_simps)
  have big: "(1::rat) < 2 powi (emax + 1)" using assms by (intro one_less_power_int) simp_all
  have "round_binary p emin emax 1 = Fin (of_int (2 ^ (p - 1)) * 2 powi (0 - int p + 1))"
  proof (rule round_binary_value)
    show "\<bar>1 / 2 powi (0 - int p + 1) - of_int (2 ^ (p - 1))\<bar> < (1::rat) / 2"
      unfolding div by simp
    show "\<bar>of_int (2 ^ (p - 1)) * (2::rat) powi (0 - int p + 1)\<bar> < 2 powi (emax + 1)"
      using inv big unfolding n by (simp add: mult.commute)
  qed (use assms in simp_all)
  then show ?thesis using inv unfolding n by (simp add: mult.commute)
qed

lemma round_double_unit:
  "0 \<le> x \<Longrightarrow> x \<le> 1 \<Longrightarrow> \<exists>y. round_double x = Fin y \<and> 0 \<le> y \<and> y \<le> 1"
  unfolding round_double_def by (rule round_binary_unit) simp_all

lemma fround_unit:
  "0 \<le> x \<Longrightarrow> x \<le> 1 \<Longrightarrow> \<exists>y. fround (Fin x) = Fin y \<and> 0 \<le> y \<and> y \<le> 1"
  unfolding fround.simps by (rule round_binary_unit) simp_all

lemma stored_one: "fround (round_double 1) = Fin 1"
  by (simp add: round_double_def round_binary_one)

lemma stored_zero: "fround (round_double 0) = Fin 0"
  by (simp add: round_double_def round_binary_def)

lemma round_double_10: "round_double (10 / 255) = Fin (5651576002974740 / 2 ^ 57)"
proof -
  have "round_binary 53 (- 1022) 1023 (10 / 255)
        = Fin (of_int 5651576002974740 * 2 powi (- 5 - int 53 + 1))"
    by (rule round_binary_value) simp_all
  then show ?thesis by (simp add: round_double_def)
qed

lemma stored_10: "fround (round_double (10 / 255)) = Fin (10526881 / 268435456)"
proof -
  have "round_binary 24 (- 126) 127 (5651576002974740 / 2 ^ 57)
        = Fin (of_int 10526881 * 2 powi (- 5 - int 24 + 1))"
    by (rule round_binary_value) simp_all
  then have "fround (Fin (5651576002974740 / 2 ^ 57)) = Fin (10526881 / 268435456)"
    by simp
  then show ?thesis by (simp only: round_double_10)
qed

section \<open>The two loops in closed form\<close>

lemma transpose_loop_from:
  "i = 4 * k \<Longrightarrow>
   transpose_loop data i (R, G, B) =
     (R @ map (\<lambda>j. idx data (4 * j)) [k..<pixels data],
      G @ map (\<lambda>j. idx data (4 * j + 1)) [k..<pixels data],
      B @ map (\<lambda>j. idx data (4 * j + 2)) [k..<pixels data])"
proof (induction data i "(R, G, B)" arbitrary: k R G B rule: transpose_loop.induct)
  case (1 data i R G B)
  show ?case
  proof (cases "i < length data")
    case True
    with 1(2) have k: "k < pixels data" by (simp add: pixels_def)
    have step: "i + 4 = 4 * Suc k" using 1(2) by simp
    have "transpose_loop data i (R, G, B)
          = transpose_loop data (i + 4)
              (R @ [idx data i], G @ [idx data (i + 1)], B @ [idx data (i + 2)])"
      using True by (simp add: transpose_loop.simps[of data i])
    also have "\<dots> = (R @ idx data i # map (\<lambda>j. idx data (4 * j)) [Suc k..<pixels data],
                     G @ idx data (i + 1) # map (\<lambda>j. idx data (4 * j + 1)) [Suc k..<pixels data],
                     B @ idx data (i + 2) # map (\<lambda>j. idx data (4 * j + 2)) [Suc k..<pixels data])"
      using 1(1)[OF True step] by simp
    finally show ?thesis using k 1(2) by (simp add: upt_conv_Cons)
  next
    case False
    with 1(2) have "pixels data \<le> k" by (simp add: pixels_def)
    then show ?thesis using False by (simp add: transpose_loop.simps[of data i])
  qed
qed

lemma transpose_loop_channels:
  "transpose_loop data 0 ([], [], []) = (channel data 0, channel data 1, channel data 2)"
  using transpose_loop_from[of 0 0 data "[]" "[]" "[]"] by (simp add: channel_def)

lemma length_channel: "length (channel data c) = pixels data"
  by (simp add: channel_def)

lemma convert_loop_length:
  "length (convert_loop td d l i out) = length out"
proof (induction td d l i out rule: convert_loop.induct)
  case (1 td d l i out)
  then show ?case
    by (cases "i < l") (simp_all add: convert_loop.simps[of td d l i out] f32_store_def)
qed

lemma convert_loop_nth:
  "p < length out \<Longrightarrow>
   convert_loop td d l i out ! p =
     (if i \<le> p \<and> p < l then fround (js_div (idx_js td p) d) else out ! p)"
proof (induction td d l i out rule: convert_loop.induct)
  case (1 td d l i out)
  show ?case
  proof (cases "i < l")
    case True
    have len: "p < length (f32_store out i (js_div (idx_js td i) d))"
      using 1(2) by (simp add: f32_store_def)
    have "convert_loop td d l i out ! p
          = convert_loop td d l (i + 1) (f32_store out i (js_div (idx_js td i) d)) ! p"
      using True by (simp add: convert_loop.simps[of td d l i out])
    also have "\<dots> = (if i + 1 \<le> p \<and> p < l then fround (js_div (idx_js td p) d)
                     else f32_store out i (js_div (idx_js td i) d) ! p)"
      using 1(1)[OF True len] .
    finally show ?thesis using True 1(2)
      by (cases "p = i") (auto simp: f32_store_def nth_list_update)
  next
    case False
    then show ?thesis by (auto simp: convert_loop.simps[of td d l i out])
  qed
qed

lemma length_planar: "length (planar data) = 3 * pixels data"
  by (simp add: planar_def length_channel)

lemma planar_nth:
  "c < 3 \<Longrightarrow> q < pixels data \<Longrightarrow> planar data ! (c * pixels data + q) = idx data (4 * q + c)"
proof -
  assume c: "c < 3" and q: "q < pixels data"
  from c consider "c = 0" | "c = 1" | "c = 2" by linarith
  then show ?thesis
  proof cases
    case 1 then show ?thesis using q by (simp add: planar_def nth_append length_channel channel_def)
  next
    case 2 then show ?thesis using q by (simp add: planar_def nth_append length_channel channel_def)
  next
    case 3 then show ?thesis using q by (simp add: planar_def nth_append length_channel channel_def)
  qed
qed

lemma length_float32_of: "length (float32_of data d) = MAX_LENGTH"
  by (simp add: float32_of_def convert_loop_length new_Float32Array_def)

lemma float32_of_nth:
  "p < MAX_LENGTH \<Longrightarrow>
   float32_of data d ! p =
     (if p < 3 * pixels data then fround (js_div (planar data ! p) d) else Fin 0)"
  by (simp add: float32_of_def convert_loop_nth new_Float32Array_def length_planar idx_js_def)

lemma prod_list_DIMS: "prod_list DIMS = MAX_LENGTH"
  by (simp add: DIMS_def MAX_LENGTH_def)

lemma imageDataToTensor_eq:
  "imageDataToTensor data DIMS =
     Inr \<lparr>tensor_type = ''float32'', tensor_data = float32_of data 255, tensor_dims = DIMS\<rparr>"
proof -
  have "convert_loop (planar data) 255 (length (planar data)) 0 (new_Float32Array MAX_LENGTH)
        = float32_of data 255"
    by (simp add: float32_of_def)
  then show ?thesis
    by (simp add: imageDataToTensor_def transpose_loop_channels planar_def MAX_SIGNED_VALUE_def
        ort_Tensor_def prod_list_DIMS length_float32_of)
qed

lemma imageDataToTensor_main_eq:
  assumes "imageData g = Val img"
  shows "imageDataToTensor_main data DIMS g =
     (Inr \<lparr>tensor_type = ''float32'', tensor_data = float32_of img 255, tensor_dims = DIMS\<rparr>,
      if MAX_LENGTH \<noteq> length (filter_alpha data)
      then g\<lparr>main_console := main_console g @
               [Mismatching_data_sizes MAX_LENGTH (length (filter_alpha data))]\<rparr>
      else g)"
proof -
  have "convert_loop (planar img) 255 (length (planar img)) 0 (new_Float32Array MAX_LENGTH)
        = float32_of img 255"
    by (simp add: float32_of_def)
  then show ?thesis using assms
    by (simp add: imageDataToTensor_main_def transpose_loop_channels planar_def Let_def
        ort_Tensor_def prod_list_DIMS length_float32_of)
qed

lemma MAX_LENGTH_eq: "MAX_LENGTH = 3 * (WIDTH * WIDTH)"
  by (simp add: MAX_LENGTH_def DIMS_def)

lemma WW: "WIDTH * WIDTH = 224 * 224"
  by (simp add: WIDTH_def)

lemma pixels_4: "length data = 4 * n \<Longrightarrow> pixels data = n"
  by (simp add: pixels_def)

lemma float32_of_pixel:
  assumes "length data = 4 * n" "c < 3" "q < n" "c * n + q < MAX_LENGTH"
  shows "float32_of data d ! (c * n + q)
         = fround (round_double (rat_of_nat (unat (data ! (4 * q + c))) / d))"
proof -
  have px: "pixels data = n" using assms(1) by (rule pixels_4)
  have lt: "c * n + q < 3 * n"
  proof -
    have "c * n + q < c * n + n" using assms(3) by simp
    also have "\<dots> = (c + 1) * n" by simp
    also have "\<dots> \<le> 3 * n" using assms(2) by (intro mult_le_mono1) simp
    finally show ?thesis .
  qed
  have inr: "4 * q + c < length data" using assms by simp
  have "float32_of data d ! (c * n + q) = fround (js_div (planar data ! (c * n + q)) d)"
    using float32_of_nth[OF assms(4), of data d] lt px by simp
  also have "planar data ! (c * n + q) = idx data (4 * q + c)"
    using planar_nth[of c q data] assms(2,3) px by simp
  also have "idx data (4 * q + c) = Val (data ! (4 * q + c))"
    using inr by (simp add: idx_def)
  finally show ?thesis by simp
qed

lemma planar_all_Val:
  assumes "length data = 4 * n" "p < 3 * n"
  shows "\<exists>b. planar data ! p = Val b"
proof -
  have px: "pixels data = n" using assms(1) by (rule pixels_4)
  have n: "0 < n" using assms(2) by (cases n) simp_all
  define c q where "c = p div n" and "q = p mod n"
  have p: "p = c * n + q" by (simp add: c_def q_def)
  have q: "q < n" using n by (simp add: q_def)
  have c: "c < 3" using assms(2) n by (simp add: c_def less_mult_imp_div_less)
  have "planar data ! p = idx data (4 * q + c)"
    using planar_nth[of c q data] c q px p by simp
  moreover have "4 * q + c < length data" using assms(1) q c by simp
  ultimately show ?thesis by (simp add: idx_def)
qed

lemma rat_of_byte_le: "rat_of_nat (unat (b :: byte)) \<le> 255"
proof -
  have "unat b < 256" using unsigned_less[of b] by simp
  then have "unat b \<le> 255" by simp
  then have "rat_of_nat (unat b) \<le> rat_of_nat 255" by (simp only: of_nat_le_iff)
  then show ?thesis by simp
qed

lemma float32_of_unit:
  assumes "length data = 4 * n" "MAX_LENGTH = 3 * n" "v \<in> set (float32_of data 255)"
  shows "\<exists>q. v = Fin q \<and> 0 \<le> q \<and> q \<le> 1"
proof -
  from assms(3) obtain p where p: "p < MAX_LENGTH" and v: "v = float32_of data 255 ! p"
    by (auto simp: in_set_conv_nth length_float32_of)
  have px: "pixels data = n" using assms(1) by (rule pixels_4)
  from p assms(2) have lt: "p < 3 * n" by simp
  from planar_all_Val[OF assms(1) lt] obtain b where b: "planar data ! p = Val b" ..
  have stored: "v = fround (round_double (rat_of_nat (unat b) / 255))"
    using v float32_of_nth[OF p, of data 255] lt px b by simp
  have "rat_of_nat (unat b) \<le> 255" by (rule rat_of_byte_le)
  moreover have "0 \<le> rat_of_nat (unat b)" by (simp only: of_nat_0_le_iff)
  ultimately have "0 \<le> rat_of_nat (unat b) / 255" "rat_of_nat (unat b) / 255 \<le> 1"
    by simp_all
  from round_double_unit[OF this] obtain y
    where y: "round_double (rat_of_nat (unat b) / 255) = Fin y" "0 \<le> y" "y \<le> 1"
    by blast
  from fround_unit[OF y(2,3)] obtain z where "fround (Fin y) = Fin z" "0 \<le> z" "z \<le> 1"
    by blast
  with stored y(1) show ?thesis by (simp only:) blast
qed

lemma filter_alpha_length: "length (filter_alpha data) = length data - length data div 4"
proof (induction data rule: rev_induct)
  case Nil
  then show ?case by (simp add: filter_alpha_def)
next
  case (snoc x xs)
  have "length (filter_alpha (xs @ [x]))
        = length (filter_alpha xs) + (if length xs mod 4 \<noteq> 3 then 1 else 0)"
    by (simp add: filter_alpha_def)
  also have "\<dots> = length xs - length xs div 4 + (if length xs mod 4 \<noteq> 3 then 1 else 0)"
    using snoc by simp
  also have "\<dots> = Suc (length xs) - Suc (length xs) div 4"
    by (simp add: div_Suc mod_Suc Suc_diff_le)
  finally show ?case by simp
qed

lemma pixel_index: "x < WIDTH \<Longrightarrow> y < WIDTH \<Longrightarrow> y * WIDTH + x < WIDTH * WIDTH"
proof -
  assume x: "x < WIDTH" and y: "y < WIDTH"
  have "y * WIDTH + x < y * WIDTH + WIDTH" using x by simp
  also have "\<dots> = Suc y * WIDTH" by simp
  also have "\<dots> \<le> WIDTH * WIDTH" using y by (intro mult_le_mono1) simp
  finally show ?thesis .
qed

lemma tensor_pixel:
  assumes len: "length data = WIDTH * WIDTH * 4" and c: "c < 3" and q: "q < WIDTH * WIDTH"
  shows "float32_of data 255 ! (c * WIDTH * WIDTH + q)
         = fround (round_double (rat_of_nat (unat (data ! (4 * q + c))) / 255))"
proof -
  have len': "length data = 4 * (WIDTH * WIDTH)" using len by simp
  have "c * (WIDTH * WIDTH) + q < c * (WIDTH * WIDTH) + WIDTH * WIDTH" using q by simp
  also have "\<dots> = (c + 1) * (WIDTH * WIDTH)" by simp
  also have "\<dots> \<le> 3 * (WIDTH * WIDTH)" using c by (intro mult_le_mono1) simp
  finally have "c * (WIDTH * WIDTH) + q < MAX_LENGTH" by (simp only: MAX_LENGTH_eq)
  from float32_of_pixel[OF len' c q this, of 255] show ?thesis by (simp only: mult.assoc)
qed

section \<open>Images of one colour\<close>

lemma length_concat_replicate4:
  "length (concat (replicate n [a0, a1, a2, a3])) = 4 * n"
  by (induction n) simp_all

lemma nth_concat_replicate4:
  "q < n \<Longrightarrow> c < 4 \<Longrightarrow>
   concat (replicate n [a0, a1, a2, a3]) ! (4 * q + c) = [a0, a1, a2, a3] ! c"
proof (induction n arbitrary: q)
  case 0
  then show ?case by simp
next
  case (Suc n)
  have unfold: "concat (replicate (Suc n) [a0, a1, a2, a3])
                = [a0, a1, a2, a3] @ concat (replicate n [a0, a1, a2, a3])"
    by simp
  show ?case
  proof (cases q)
    case 0
    have "([a0, a1, a2, a3] @ concat (replicate n [a0, a1, a2, a3])) ! c = [a0, a1, a2, a3] ! c"
      using Suc.prems(2) by (subst nth_append) simp
    then show ?thesis unfolding unfold using 0 by simp
  next
    case (Suc q')
    then have q': "q' < n" using Suc.prems by simp
    have "4 * q + c = length [a0, a1, a2, a3] + (4 * q' + c)"
      using Suc by simp
    then have "concat (replicate (Suc n) [a0, a1, a2, a3]) ! (4 * q + c)
               = concat (replicate n [a0, a1, a2, a3]) ! (4 * q' + c)"
      unfolding unfold by (simp only: nth_append_length_plus)
    then show ?thesis using Suc.IH[OF q' Suc.prems(2)] by simp
  qed
qed

lemma length_solid_image: "length (solid_image r g b a) = 4 * (WIDTH * WIDTH)"
  by (simp only: solid_image_def length_concat_replicate4)

lemma solid_image_nth:
  "q < WIDTH * WIDTH \<Longrightarrow> c < 4 \<Longrightarrow> solid_image r g b a ! (4 * q + c) = [r, g, b, a] ! c"
  by (simp only: solid_image_def nth_concat_replicate4)

lemma solid_planes:
  fixes r g b a :: byte
  defines "n \<equiv> WIDTH * WIDTH"
  defines "out \<equiv> float32_of (solid_image r g b a) 255"
  shows "take n out = replicate n (fround (round_double (rat_of_nat (unat r) / 255)))"
    and "take n (drop n out) = replicate n (fround (round_double (rat_of_nat (unat g) / 255)))"
    and "drop (2 * n) out = replicate n (fround (round_double (rat_of_nat (unat b) / 255)))"
proof -
  have len: "length (solid_image r g b a) = WIDTH * WIDTH * 4"
    by (simp add: length_solid_image)
  have L: "length out = 3 * n"
    by (simp add: out_def n_def length_float32_of MAX_LENGTH_eq)
  have px: "c < 3 \<Longrightarrow> q < n \<Longrightarrow>
            out ! (c * n + q) = fround (round_double (rat_of_nat (unat ([r, g, b, a] ! c)) / 255))" for c q
  proof -
    assume c: "c < 3" and q: "q < n"
    have "out ! (c * n + q) = fround (round_double (rat_of_nat (unat (solid_image r g b a ! (4 * q + c))) / 255))"
      using tensor_pixel[OF len c, of q] q by (simp add: out_def n_def mult.assoc)
    moreover have "solid_image r g b a ! (4 * q + c) = [r, g, b, a] ! c"
      using solid_image_nth[of q c r g b a] q c by (simp add: n_def)
    ultimately show ?thesis by simp
  qed
  show "take n out = replicate n (fround (round_double (rat_of_nat (unat r) / 255)))"
  proof (rule nth_equalityI)
    show "length (take n out) = length (replicate n (fround (round_double (rat_of_nat (unat r) / 255))))"
      using L by simp
  next
    fix i assume "i < length (take n out)"
    then have i: "i < n" using L by simp
    with px[of 0 i] show "take n out ! i = replicate n (fround (round_double (rat_of_nat (unat r) / 255))) ! i"
      by simp
  qed
  show "take n (drop n out) = replicate n (fround (round_double (rat_of_nat (unat g) / 255)))"
  proof (rule nth_equalityI)
    show "length (take n (drop n out)) = length (replicate n (fround (round_double (rat_of_nat (unat g) / 255))))"
      using L by simp
  next
    fix i assume "i < length (take n (drop n out))"
    then have i: "i < n" using L by simp
    with px[of 1 i] L
    show "take n (drop n out) ! i = replicate n (fround (round_double (rat_of_nat (unat g) / 255))) ! i"
      by simp
  qed
  show "drop (2 * n) out = replicate n (fround (round_double (rat_of_nat (unat b) / 255)))"
  proof (rule nth_equalityI)
    show "length (drop (2 * n) out) = length (replicate n (fround (round_double (rat_of_nat (unat b) / 255))))"
      using L by simp
  next
    fix i assume "i < length (drop (2 * n) out)"
    then have i: "i < n" using L by simp
    with px[of 2 i] L
    show "drop (2 * n) out ! i = replicate n (fround (round_double (rat_of_nat (unat b) / 255))) ! i"
      by simp
  qed
qed

section \<open>The Tensor Builder on a well-sized buffer\<close>

text \<open>
  C1, as amended. For an RGBA buffer of length \<open>W * W * 4\<close> (\<open>W = 224\<close>) whose pixel
  \<open>(x, y)\<close>, at offset \<open>4 * (y * W + x)\<close>, has the bytes \<open>(r, g, b, a)\<close>, the tensor built by
  \<^verbatim>\<open>imageDataToTensor\<close> holds at index \<open>0 * W * W + y * W + x\<close> the 32-bit float nearest to
  the double \<open>r / 255.0\<close>, at \<open>1 * W * W + y * W + x\<close> the one nearest to \<open>g / 255.0\<close> and at
  \<open>2 * W * W + y * W + x\<close> the one nearest to \<open>b / 255.0\<close>: the alpha byte is dropped, the
  layout goes from pixel-major to channel-major, and every byte is divided by 255 and
  stored as a 32-bit float. This holds of both revisions; the first one transposes the
  global \<^verbatim>\<open>imageData\<close>, which \<^verbatim>\<open>handleImageData\<close> has set to the buffer it passes.
\<close>

theorem tensor_builder_channel_major:
  assumes len: "length data = WIDTH * WIDTH * 4" and x: "x < WIDTH" and y: "y < WIDTH"
    and r: "data ! (4 * (y * WIDTH + x)) = r"
    and g: "data ! (4 * (y * WIDTH + x) + 1) = g"
    and b: "data ! (4 * (y * WIDTH + x) + 2) = b"
    and a: "data ! (4 * (y * WIDTH + x) + 3) = a"
  shows "(\<exists>t. imageDataToTensor data DIMS = Inr t
            \<and> tensor_data t ! (0 * WIDTH * WIDTH + y * WIDTH + x) = fround (round_double (rat_of_nat (unat r) / 255))
            \<and> tensor_data t ! (1 * WIDTH * WIDTH + y * WIDTH + x) = fround (round_double (rat_of_nat (unat g) / 255))
            \<and> tensor_data t ! (2 * WIDTH * WIDTH + y * WIDTH + x) = fround (round_double (rat_of_nat (unat b) / 255)))
       \<and> (\<exists>t gs'. imageDataToTensor_main data DIMS (gs\<lparr>imageData := Val data\<rparr>) = (Inr t, gs')
            \<and> tensor_data t ! (0 * WIDTH * WIDTH + y * WIDTH + x) = fround (round_double (rat_of_nat (unat r) / 255))
            \<and> tensor_data t ! (1 * WIDTH * WIDTH + y * WIDTH + x) = fround (round_double (rat_of_nat (unat g) / 255))
            \<and> tensor_data t ! (2 * WIDTH * WIDTH + y * WIDTH + x) = fround (round_double (rat_of_nat (unat b) / 255)))"
proof -
  let ?q = "y * WIDTH + x"
  have q: "?q < WIDTH * WIDTH" using x y by (rule pixel_index)
  have R: "float32_of data 255 ! (0 * WIDTH * WIDTH + y * WIDTH + x) = fround (round_double (rat_of_nat (unat r) / 255))"
    using tensor_pixel[OF len, of 0 ?q] q r by (simp add: add.assoc)
  have G: "float32_of data 255 ! (1 * WIDTH * WIDTH + y * WIDTH + x) = fround (round_double (rat_of_nat (unat g) / 255))"
    using tensor_pixel[OF len, of 1 ?q] q g by (simp add: add.assoc)
  have B: "float32_of data 255 ! (2 * WIDTH * WIDTH + y * WIDTH + x) = fround (round_double (rat_of_nat (unat b) / 255))"
    using tensor_pixel[OF len, of 2 ?q] q b by (simp add: add.assoc)
  have later: "\<exists>t. imageDataToTensor data DIMS = Inr t
            \<and> tensor_data t ! (0 * WIDTH * WIDTH + y * WIDTH + x) = fround (round_double (rat_of_nat (unat r) / 255))
            \<and> tensor_data t ! (1 * WIDTH * WIDTH + y * WIDTH + x) = fround (round_double (rat_of_nat (unat g) / 255))
            \<and> tensor_data t ! (2 * WIDTH * WIDTH + y * WIDTH + x) = fround (round_double (rat_of_nat (unat b) / 255))"
    unfolding imageDataToTensor_eq using R G B by simp
  have first: "\<exists>t gs'. imageDataToTensor_main data DIMS (gs\<lparr>imageData := Val data\<rparr>) = (Inr t, gs')
            \<and> tensor_data t ! (0 * WIDTH * WIDTH + y * WIDTH + x) = fround (round_double (rat_of_nat (unat r) / 255))
            \<and> tensor_data t ! (1 * WIDTH * WIDTH + y * WIDTH + x) = fround (round_double (rat_of_nat (unat g) / 255))
            \<and> tensor_data t ! (2 * WIDTH * WIDTH + y * WIDTH + x) = fround (round_double (rat_of_nat (unat b) / 255))"
    using R G B imageDataToTensor_main_eq[of "gs\<lparr>imageData := Val data\<rparr>" data data]
    by simp
  from later first show ?thesis by (rule conjI)
qed

text \<open>
  The amended C1 at the pixel \<open>(5, 7)\<close> of an image whose pixels all are \<open>(10, 20, 30, 40)\<close>.
\<close>

theorem tensor_builder_channel_major_witness:
  "length (solid_image 10 20 30 40) = WIDTH * WIDTH * 4 \<and> (5::nat) < WIDTH \<and> (7::nat) < WIDTH
   \<and> solid_image 10 20 30 40 ! (4 * (7 * WIDTH + 5)) = 10
   \<and> solid_image 10 20 30 40 ! (4 * (7 * WIDTH + 5) + 1) = 20
   \<and> solid_image 10 20 30 40 ! (4 * (7 * WIDTH + 5) + 2) = 30
   \<and> solid_image 10 20 30 40 ! (4 * (7 * WIDTH + 5) + 3) = 40
   \<and> (\<exists>t. imageDataToTensor (solid_image 10 20 30 40) DIMS = Inr t
          \<and> tensor_data t ! (0 * WIDTH * WIDTH + 7 * WIDTH + 5) = fround (round_double (rat_of_nat (unat (10 :: byte)) / 255))
          \<and> tensor_data t ! (1 * WIDTH * WIDTH + 7 * WIDTH + 5) = fround (round_double (rat_of_nat (unat (20 :: byte)) / 255))
          \<and> tensor_data t ! (2 * WIDTH * WIDTH + 7 * WIDTH + 5) = fround (round_double (rat_of_nat (unat (30 :: byte)) / 255)))
   \<and> (\<exists>t gs'. imageDataToTensor_main (solid_image 10 20 30 40) DIMS
                  \<lparr>imageData = Val (solid_image 10 20 30 40), main_console = [],
                   main_target_innerHTML = ''''\<rparr> = (Inr t, gs')
          \<and> tensor_data t ! (0 * WIDTH * WIDTH + 7 * WIDTH + 5) = fround (round_double (rat_of_nat (unat (10 :: byte)) / 255))
          \<and> tensor_data t ! (1 * WIDTH * WIDTH + 7 * WIDTH + 5) = fround (round_double (rat_of_nat (unat (20 :: byte)) / 255))
          \<and> tensor_data t ! (2 * WIDTH * WIDTH + 7 * WIDTH + 5) = fround (round_double (rat_of_nat (unat (30 :: byte)) / 255)))"
proof -
  let ?d = "solid_image 10 20 30 40"
  have len: "length ?d = WIDTH * WIDTH * 4" by (simp add: length_solid_image)
  have x: "(5::nat) < WIDTH" and y: "(7::nat) < WIDTH" by (simp_all add: WIDTH_def)
  have q: "7 * WIDTH + 5 < WIDTH * WIDTH" using x y by (rule pixel_index)
  have r: "?d ! (4 * (7 * WIDTH + 5)) = 10"
    using solid_image_nth[OF q, of 0 10 20 30 40] by simp
  have g: "?d ! (4 * (7 * WIDTH + 5) + 1) = 20"
    using solid_image_nth[OF q, of 1 10 20 30 40] by simp
  have b: "?d ! (4 * (7 * WIDTH + 5) + 2) = 30"
    using solid_image_nth[OF q, of 2 10 20 30 40] by simp
  have a: "?d ! (4 * (7 * WIDTH + 5) + 3) = 40"
    using solid_image_nth[OF q, of 3 10 20 30 40] by simp
  note inst = tensor_builder_channel_major[OF len x y r g b a,
      of "\<lparr>imageData = Val ?d, main_console = [], main_target_innerHTML = ''''\<rparr>"]
  have upd: "\<lparr>imageData = Val ?d, main_console = [], main_target_innerHTML = ''''\<rparr>
               \<lparr>imageData := Val ?d\<rparr>
             = \<lparr>imageData = Val ?d, main_console = [], main_target_innerHTML = ''''\<rparr>"
    by simp
  from inst have both:
    "(\<exists>t. imageDataToTensor ?d DIMS = Inr t
          \<and> tensor_data t ! (0 * WIDTH * WIDTH + 7 * WIDTH + 5) = fround (round_double (rat_of_nat (unat (10 :: byte)) / 255))
          \<and> tensor_data t ! (1 * WIDTH * WIDTH + 7 * WIDTH + 5) = fround (round_double (rat_of_nat (unat (20 :: byte)) / 255))
          \<and> tensor_data t ! (2 * WIDTH * WIDTH + 7 * WIDTH + 5) = fround (round_double (rat_of_nat (unat (30 :: byte)) / 255)))
   \<and> (\<exists>t gs'. imageDataToTensor_main ?d DIMS
                  \<lparr>imageData = Val ?d, main_console = [], main_target_innerHTML = ''''\<rparr> = (Inr t, gs')
          \<and> tensor_data t ! (0 * WIDTH * WIDTH + 7 * WIDTH + 5) = fround (round_double (rat_of_nat (unat (10 :: byte)) / 255))
          \<and> tensor_data t ! (1 * WIDTH * WIDTH + 7 * WIDTH + 5) = fround (round_double (rat_of_nat (unat (20 :: byte)) / 255))
          \<and> tensor_data t ! (2 * WIDTH * WIDTH + 7 * WIDTH + 5) = fround (round_double (rat_of_nat (unat (30 :: byte)) / 255)))"
    unfolding upd .
  show ?thesis
    by (intro conjI len x y r g b a conjunct1[OF both] conjunct2[OF both])
qed

text \<open>
  C1 as stated (the value equals the quotient \<open>r / 255\<close>) does not hold: the array keeps
  32-bit floats, and of the quotients of a byte by 255 only 0 and 1 are such floats. In an
  image whose pixels all are \<open>(10, 20, 30, 40)\<close>, the red value of pixel \<open>(5, 7)\<close> is stored as
  \<open>10526881 / 2 ^ 28\<close>, which is not \<open>10 / 255\<close>.
\<close>

theorem exact_quotient_counterexample:
  "length (solid_image 10 20 30 40) = WIDTH * WIDTH * 4
   \<and> solid_image 10 20 30 40 ! (4 * (7 * WIDTH + 5)) = 10
   \<and> \<not> isl (imageDataToTensor (solid_image 10 20 30 40) DIMS)
   \<and> \<not> isl (fst (imageDataToTensor_main (solid_image 10 20 30 40) DIMS
           \<lparr>imageData = Val (solid_image 10 20 30 40), main_console = [],
            main_target_innerHTML = ''''\<rparr>))
   \<and> tensor_data (projr (imageDataToTensor (solid_image 10 20 30 40) DIMS))
         ! (0 * WIDTH * WIDTH + 7 * WIDTH + 5) = Fin (10526881 / 2 ^ 28)
   \<and> tensor_data (projr (fst (imageDataToTensor_main (solid_image 10 20 30 40) DIMS
           \<lparr>imageData = Val (solid_image 10 20 30 40), main_console = [],
            main_target_innerHTML = ''''\<rparr>)))
         ! (0 * WIDTH * WIDTH + 7 * WIDTH + 5) = Fin (10526881 / 2 ^ 28)
   \<and> Fin (10526881 / 2 ^ 28) \<noteq> Fin (rat_of_nat (unat (10 :: byte)) / 255)"
proof -
  let ?d = "solid_image 10 20 30 40"
  have len: "length ?d = WIDTH * WIDTH * 4" by (simp add: length_solid_image)
  have x: "(5::nat) < WIDTH" and y: "(7::nat) < WIDTH" by (simp_all add: WIDTH_def)
  have q: "7 * WIDTH + 5 < WIDTH * WIDTH" using x y by (rule pixel_index)
  have r: "?d ! (4 * (7 * WIDTH + 5)) = 10"
    using solid_image_nth[OF q, of 0 10 20 30 40] by simp
  have ten: "rat_of_nat (unat (10 :: byte)) / 255 = 10 / 255" by simp
  have "float32_of ?d 255 ! (0 * WIDTH * WIDTH + (7 * WIDTH + 5))
        = fround (round_double (rat_of_nat (unat (?d ! (4 * (7 * WIDTH + 5) + 0))) / 255))"
    using len _ q by (rule tensor_pixel) simp
  then have "float32_of ?d 255 ! (0 * WIDTH * WIDTH + (7 * WIDTH + 5))
        = fround (round_double (10 / 255))"
    using r ten by simp
  then have v: "float32_of ?d 255 ! (0 * WIDTH * WIDTH + 7 * WIDTH + 5) = Fin (10526881 / 2 ^ 28)"
    unfolding stored_10 by simp
  have later: "tensor_data (projr (imageDataToTensor ?d DIMS))
         ! (0 * WIDTH * WIDTH + 7 * WIDTH + 5) = Fin (10526881 / 2 ^ 28)"
    unfolding imageDataToTensor_eq using v by simp
  have first: "tensor_data (projr (fst (imageDataToTensor_main ?d DIMS
           \<lparr>imageData = Val ?d, main_console = [], main_target_innerHTML = ''''\<rparr>)))
         ! (0 * WIDTH * WIDTH + 7 * WIDTH + 5) = Fin (10526881 / 2 ^ 28)"
    by (subst imageDataToTensor_main_eq[where img = ?d]) (use v in simp_all)
  have ne: "Fin (10526881 / 2 ^ 28) \<noteq> Fin (rat_of_nat (unat (10 :: byte)) / 255)"
    by simp
  have ok: "\<not> isl (imageDataToTensor ?d DIMS)"
    by (simp add: imageDataToTensor_eq)
  have ok': "\<not> isl (fst (imageDataToTensor_main ?d DIMS
           \<lparr>imageData = Val ?d, main_console = [], main_target_innerHTML = ''''\<rparr>))"
    by (subst imageDataToTensor_main_eq[where img = ?d]) simp_all
  from len r ok ok' later first ne show ?thesis by (intro conjI)
qed

text \<open>
  C4. For an RGBA buffer of length \<open>W * W * 4\<close> (its bytes lie in \<open>[0, 255]\<close> by their
  type), the tensor has length \<open>3 * W * W\<close> exactly and every value of it is a finite number
  in the closed interval from 0 to 1.
\<close>

theorem tensor_builder_length_and_range:
  assumes len: "length data = WIDTH * WIDTH * 4"
  shows "(\<exists>t. imageDataToTensor data DIMS = Inr t
            \<and> length (tensor_data t) = 3 * WIDTH * WIDTH
            \<and> (\<forall>v \<in> set (tensor_data t). \<exists>q. v = Fin q \<and> 0 \<le> q \<and> q \<le> 1))
       \<and> (\<exists>t gs'. imageDataToTensor_main data DIMS (gs\<lparr>imageData := Val data\<rparr>) = (Inr t, gs')
            \<and> length (tensor_data t) = 3 * WIDTH * WIDTH
            \<and> (\<forall>v \<in> set (tensor_data t). \<exists>q. v = Fin q \<and> 0 \<le> q \<and> q \<le> 1))"
proof -
  have len': "length data = 4 * (WIDTH * WIDTH)" using len by simp
  have L: "length (float32_of data 255) = 3 * WIDTH * WIDTH"
    by (simp add: length_float32_of MAX_LENGTH_eq)
  have U: "\<forall>v \<in> set (float32_of data 255). \<exists>q. v = Fin q \<and> 0 \<le> q \<and> q \<le> 1"
    using float32_of_unit[OF len' MAX_LENGTH_eq] by blast
  have later: "\<exists>t. imageDataToTensor data DIMS = Inr t
            \<and> length (tensor_data t) = 3 * WIDTH * WIDTH
            \<and> (\<forall>v \<in> set (tensor_data t). \<exists>q. v = Fin q \<and> 0 \<le> q \<and> q \<le> 1)"
    unfolding imageDataToTensor_eq using L U by simp
  have first: "\<exists>t gs'. imageDataToTensor_main data DIMS (gs\<lparr>imageData := Val data\<rparr>) = (Inr t, gs')
            \<and> length (tensor_data t) = 3 * WIDTH * WIDTH
            \<and> (\<forall>v \<in> set (tensor_data t). \<exists>q. v = Fin q \<and> 0 \<le> q \<and> q \<le> 1)"
    using L U imageDataToTensor_main_eq[of "gs\<lparr>imageData := Val data\<rparr>" data data]
    by simp
  from later first show ?thesis by (rule conjI)
qed

text \<open>C4 at an image whose pixels all are \<open>(10, 20, 30, 40)\<close>.\<close>

theorem tensor_builder_length_and_range_witness:
  "length (solid_image 10 20 30 40) = WIDTH * WIDTH * 4
   \<and> (\<exists>t. imageDataToTensor (solid_image 10 20 30 40) DIMS = Inr t
          \<and> length (tensor_data t) = 3 * WIDTH * WIDTH
          \<and> (\<forall>v \<in> set (tensor_data t). \<exists>q. v = Fin q \<and> 0 \<le> q \<and> q \<le> 1))
   \<and> (\<exists>t gs'. imageDataToTensor_main (solid_image 10 20 30 40) DIMS
                  (\<lparr>imageData = Undefined, main_console = [], main_target_innerHTML = ''''\<rparr>
                     \<lparr>imageData := Val (solid_image 10 20 30 40)\<rparr>) = (Inr t, gs')
          \<and> length (tensor_data t) = 3 * WIDTH * WIDTH
          \<and> (\<forall>v \<in> set (tensor_data t). \<exists>q. v = Fin q \<and> 0 \<le> q \<and> q \<le> 1))"
proof -
  have len: "length (solid_image 10 20 30 40) = WIDTH * WIDTH * 4"
    by (simp add: length_solid_image)
  note inst = tensor_builder_length_and_range[OF len,
      of "\<lparr>imageData = Undefined, main_console = [], main_target_innerHTML = ''''\<rparr>"]
  from len inst show ?thesis by (rule conjI)
qed

text \<open>
  C6. For the solid red \<open>224 \<times> 224\<close> image, every pixel \<open>(255, 0, 0, 255)\<close>, the first
  \<open>224 * 224\<close> values of the tensor all are 1, the next \<open>224 * 224\<close> all are 0 and the last
  \<open>224 * 224\<close> all are 0.
\<close>

theorem solid_red_image_tensor:
  "(\<exists>t. imageDataToTensor (solid_image 255 0 0 255) DIMS = Inr t
        \<and> take (224 * 224) (tensor_data t) = replicate (224 * 224) (Fin 1)
        \<and> take (224 * 224) (drop (224 * 224) (tensor_data t)) = replicate (224 * 224) (Fin 0)
        \<and> drop (2 * (224 * 224)) (tensor_data t) = replicate (224 * 224) (Fin 0))
   \<and> (\<exists>t gs'. imageDataToTensor_main (solid_image 255 0 0 255) DIMS
                  (gs\<lparr>imageData := Val (solid_image 255 0 0 255)\<rparr>) = (Inr t, gs')
        \<and> take (224 * 224) (tensor_data t) = replicate (224 * 224) (Fin 1)
        \<and> take (224 * 224) (drop (224 * 224) (tensor_data t)) = replicate (224 * 224) (Fin 0)
        \<and> drop (2 * (224 * 224)) (tensor_data t) = replicate (224 * 224) (Fin 0))"
proof -
  let ?out = "float32_of (solid_image 255 0 0 255) 255"
  have R: "take (224 * 224) ?out = replicate (224 * 224) (Fin 1)"
    using solid_planes(1)[of 255 0 0 255] unfolding WW by (simp add: stored_one)
  have G: "take (224 * 224) (drop (224 * 224) ?out) = replicate (224 * 224) (Fin 0)"
    using solid_planes(2)[of 255 0 0 255] unfolding WW by (simp add: stored_zero)
  have B: "drop (2 * (224 * 224)) ?out = replicate (224 * 224) (Fin 0)"
    using solid_planes(3)[of 255 0 0 255] unfolding WW by (simp add: stored_zero)
  have later: "\<exists>t. imageDataToTensor (solid_image 255 0 0 255) DIMS = Inr t
        \<and> take (224 * 224) (tensor_data t) = replicate (224 * 224) (Fin 1)
        \<and> take (224 * 224) (drop (224 * 224) (tensor_data t)) = replicate (224 * 224) (Fin 0)
        \<and> drop (2 * (224 * 224)) (tensor_data t) = replicate (224 * 224) (Fin 0)"
    unfolding imageDataToTensor_eq using R G B by simp
  have first: "\<exists>t gs'. imageDataToTensor_main (solid_image 255 0 0 255) DIMS
                  (gs\<lparr>imageData := Val (solid_image 255 0 0 255)\<rparr>) = (Inr t, gs')
        \<and> take (224 * 224) (tensor_data t) = replicate (224 * 224) (Fin 1)
        \<and> take (224 * 224) (drop (224 * 224) (tensor_data t)) = replicate (224 * 224) (Fin 0)
        \<and> drop (2 * (224 * 224)) (tensor_data t) = replicate (224 * 224) (Fin 0)"
    using R G B
      imageDataToTensor_main_eq[of "gs\<lparr>imageData := Val (solid_image 255 0 0 255)\<rparr>"
        "solid_image 255 0 0 255" "solid_image 255 0 0 255"]
    by simp
  from later first show ?thesis by (rule conjI)
qed

section \<open>The Tensor Builder on any buffer\<close>

text \<open>
  C8. For a buffer of any length, with \<open>R\<close>, \<open>G\<close>, \<open>B\<close> as the transposition loop leaves them
  (three values for every started pixel; where the buffer ends inside a pixel the missing
  ones are \<^verbatim>\<open>undefined\<close>, which count as values and are stored as NaN),
  \<^verbatim>\<open>imageDataToTensor\<close> returns a tensor and throws nothing. The array of the tensor has
  length \<open>3 * 224 * 224\<close> exactly; below that length, index \<open>p\<close> holds the transposed value
  at \<open>p\<close>, divided by 255 and rounded to a 32-bit float, where the transposed data reach
  \<open>p\<close>, and 0 where they do not. So the trailing entries are zero when the input yields
  fewer values, and the stores at and beyond \<open>3 * 224 * 224\<close> leave no trace when it yields
  more.
\<close>

theorem tensor_builder_any_length:
  assumes tr: "transpose_loop data 0 ([], [], []) = (R, G, B)"
  shows "length (R @ G @ B) = 3 * ((length data + 3) div 4)
       \<and> (\<exists>t. imageDataToTensor data DIMS = Inr t
            \<and> length (tensor_data t) = 3 * 224 * 224
            \<and> (\<forall>p < 3 * 224 * 224. tensor_data t ! p =
                  (if p < length (R @ G @ B) then fround (js_div ((R @ G @ B) ! p) 255) else Fin 0)))
       \<and> (\<exists>t gs'. imageDataToTensor_main data DIMS (gs\<lparr>imageData := Val data\<rparr>) = (Inr t, gs')
            \<and> length (tensor_data t) = 3 * 224 * 224
            \<and> (\<forall>p < 3 * 224 * 224. tensor_data t ! p =
                  (if p < length (R @ G @ B) then fround (js_div ((R @ G @ B) ! p) 255) else Fin 0)))"
proof -
  have RGB: "R @ G @ B = planar data"
    using tr by (simp add: transpose_loop_channels planar_def)
  have mlen: "MAX_LENGTH = 3 * 224 * 224"
    by (simp add: MAX_LENGTH_eq WW)
  have n: "length (R @ G @ B) = 3 * ((length data + 3) div 4)"
    unfolding RGB by (simp add: length_planar pixels_def)
  have L: "length (float32_of data 255) = 3 * 224 * 224"
    by (simp only: length_float32_of mlen)
  have V: "\<forall>p < 3 * 224 * 224. float32_of data 255 ! p =
             (if p < length (R @ G @ B) then fround (js_div ((R @ G @ B) ! p) 255) else Fin 0)"
  proof (intro allI impI)
    fix p :: nat assume "p < 3 * 224 * 224"
    then have "p < MAX_LENGTH" by (simp only: mlen)
    from float32_of_nth[OF this, of data 255]
    show "float32_of data 255 ! p =
            (if p < length (R @ G @ B) then fround (js_div ((R @ G @ B) ! p) 255) else Fin 0)"
      unfolding RGB by (simp add: length_planar)
  qed
  have later: "\<exists>t. imageDataToTensor data DIMS = Inr t
            \<and> length (tensor_data t) = 3 * 224 * 224
            \<and> (\<forall>p < 3 * 224 * 224. tensor_data t ! p =
                  (if p < length (R @ G @ B) then fround (js_div ((R @ G @ B) ! p) 255) else Fin 0))"
    unfolding imageDataToTensor_eq using L V by simp
  have first: "\<exists>t gs'. imageDataToTensor_main data DIMS (gs\<lparr>imageData := Val data\<rparr>) = (Inr t, gs')
            \<and> length (tensor_data t) = 3 * 224 * 224
            \<and> (\<forall>p < 3 * 224 * 224. tensor_data t ! p =
                  (if p < length (R @ G @ B) then fround (js_div ((R @ G @ B) ! p) 255) else Fin 0))"
    using L V imageDataToTensor_main_eq[of "gs\<lparr>imageData := Val data\<rparr>" data data]
    by simp
  from n later first show ?thesis by (intro conjI)
qed

lemma transpose_five:
  "transpose_loop [1, 2, 3, 4, 5] 0 ([], [], [])
   = ([Val 1, Val 5], [Val 2, Undefined], [Val 3, Undefined])"
  by (simp add: transpose_loop.simps idx_def)

text \<open>C8 at a buffer of five bytes: one pixel and the first byte of a second one.\<close>

theorem tensor_builder_any_length_witness:
  "transpose_loop [1, 2, 3, 4, 5] 0 ([], [], [])
     = ([Val 1, Val 5], [Val 2, Undefined], [Val 3, Undefined])
   \<and> length ([Val 1, Val 5] @ [Val 2, Undefined] @ [Val 3, Undefined :: byte js])
       = 3 * ((length [1, 2, 3, 4, 5 :: byte] + 3) div 4)
   \<and> (\<exists>t. imageDataToTensor [1, 2, 3, 4, 5] DIMS = Inr t
          \<and> length (tensor_data t) = 3 * 224 * 224
          \<and> (\<forall>p < 3 * 224 * 224. tensor_data t ! p =
                (if p < length ([Val 1, Val 5] @ [Val 2, Undefined] @ [Val 3, Undefined :: byte js])
                 then fround (js_div (([Val 1, Val 5] @ [Val 2, Undefined] @ [Val 3, Undefined]) ! p) 255)
                 else Fin 0)))
   \<and> (\<exists>t gs'. imageDataToTensor_main [1, 2, 3, 4, 5] DIMS
                  (\<lparr>imageData = Undefined, main_console = [], main_target_innerHTML = ''''\<rparr>
                     \<lparr>imageData := Val [1, 2, 3, 4, 5]\<rparr>) = (Inr t, gs')
          \<and> length (tensor_data t) = 3 * 224 * 224
          \<and> (\<forall>p < 3 * 224 * 224. tensor_data t ! p =
                (if p < length ([Val 1, Val 5] @ [Val 2, Undefined] @ [Val 3, Undefined :: byte js])
                 then fround (js_div (([Val 1, Val 5] @ [Val 2, Undefined] @ [Val 3, Undefined]) ! p) 255)
                 else Fin 0)))"
proof -
  note inst = tensor_builder_any_length[OF transpose_five,
      of "\<lparr>imageData = Undefined, main_console = [], main_target_innerHTML = ''''\<rparr>"]
  from transpose_five inst show ?thesis by (rule conjI)
qed

text \<open>
  The entries of that tensor, one by one: the byte 1 is stored as \<open>8421505 / 2 ^ 31\<close>, the
  two missing values of the second pixel as NaN, and everything from index 6 on is zero.
\<close>

lemma stored_1: "fround (round_double (1 / 255)) = Fin (8421505 / 2 ^ 31)"
proof -
  have "round_binary 53 (- 1022) 1023 (1 / 255)
        = Fin (of_int 4521260802379792 * 2 powi (- 8 - int 53 + 1))"
    by (rule round_binary_value) simp_all
  then have d: "round_double (1 / 255) = Fin (4521260802379792 / 2 ^ 60)"
    by (simp add: round_double_def)
  have "round_binary 24 (- 126) 127 (4521260802379792 / 2 ^ 60)
        = Fin (of_int 8421505 * 2 powi (- 8 - int 24 + 1))"
    by (rule round_binary_value) simp_all
  then have "fround (Fin (4521260802379792 / 2 ^ 60)) = Fin (8421505 / 2 ^ 31)"
    by simp
  then show ?thesis by (simp only: d)
qed

lemma tensor_of_five_bytes:
  "tensor_data (projr (imageDataToTensor [1, 2, 3, 4, 5] DIMS)) ! 0 = Fin (8421505 / 2 ^ 31)
   \<and> tensor_data (projr (imageDataToTensor [1, 2, 3, 4, 5] DIMS)) ! 3 = NaN
   \<and> tensor_data (projr (imageDataToTensor [1, 2, 3, 4, 5] DIMS)) ! 5 = NaN
   \<and> tensor_data (projr (imageDataToTensor [1, 2, 3, 4, 5] DIMS)) ! 6 = Fin 0"
proof -
  have pl: "planar [1, 2, 3, 4, 5] = [Val 1, Val 5, Val 2, Undefined, Val 3, Undefined]"
    using transpose_five by (simp add: transpose_loop_channels planar_def)
  have px: "pixels [1, 2, 3, 4, 5] = 2" by (simp add: pixels_def)
  have big: "(0::nat) < MAX_LENGTH" "(3::nat) < MAX_LENGTH" "(5::nat) < MAX_LENGTH"
    "(6::nat) < MAX_LENGTH"
    by (simp_all add: MAX_LENGTH_eq WIDTH_def)
  have "float32_of [1, 2, 3, 4, 5] 255 ! 0 = fround (round_double (1 / 255))"
    using float32_of_nth[OF big(1), of "[1, 2, 3, 4, 5]" 255] by (simp add: px pl)
  then have e0: "float32_of [1, 2, 3, 4, 5] 255 ! 0 = Fin (8421505 / 2 ^ 31)"
    by (simp only: stored_1)
  have e3: "float32_of [1, 2, 3, 4, 5] 255 ! 3 = NaN"
    using float32_of_nth[OF big(2), of "[1, 2, 3, 4, 5]" 255] by (simp add: px pl)
  have e5: "float32_of [1, 2, 3, 4, 5] 255 ! 5 = NaN"
    using float32_of_nth[OF big(3), of "[1, 2, 3, 4, 5]" 255] by (simp add: px pl)
  have e6: "float32_of [1, 2, 3, 4, 5] 255 ! 6 = Fin 0"
    using float32_of_nth[OF big(4), of "[1, 2, 3, 4, 5]" 255] by (simp add: px)
  from e0 e3 e5 e6 show ?thesis unfolding imageDataToTensor_eq by simp
qed

text \<open>
  C2, as amended. Where the length of the buffer without its alpha bytes differs from
  \<open>3 * W * W\<close>, neither revision fails. The first revision appends one entry
  \<^verbatim>\<open>Mismatching data sizes\<close> to the console errors and goes on; the later revision makes no
  check at all. Both return a tensor of length \<open>3 * W * W\<close>.
\<close>

theorem length_mismatch_logged_not_thrown:
  assumes "length (filter_alpha data) \<noteq> 3 * WIDTH * WIDTH"
  shows "(\<exists>t. imageDataToTensor data DIMS = Inr t \<and> length (tensor_data t) = 3 * WIDTH * WIDTH)
       \<and> (\<exists>t. imageDataToTensor_main data DIMS (gs\<lparr>imageData := Val data\<rparr>)
                = (Inr t, gs\<lparr>imageData := Val data,
                             main_console := main_console gs @
                               [Mismatching_data_sizes (3 * WIDTH * WIDTH)
                                  (length (filter_alpha data))]\<rparr>)
              \<and> length (tensor_data t) = 3 * WIDTH * WIDTH)"
proof -
  have L: "length (float32_of data 255) = 3 * WIDTH * WIDTH"
    by (simp add: length_float32_of MAX_LENGTH_eq)
  have later: "\<exists>t. imageDataToTensor data DIMS = Inr t \<and> length (tensor_data t) = 3 * WIDTH * WIDTH"
    unfolding imageDataToTensor_eq using L by simp
  have ne: "MAX_LENGTH \<noteq> length (filter_alpha data)"
    using assms by (simp add: MAX_LENGTH_eq)
  have first: "\<exists>t. imageDataToTensor_main data DIMS (gs\<lparr>imageData := Val data\<rparr>)
                = (Inr t, gs\<lparr>imageData := Val data,
                             main_console := main_console gs @
                               [Mismatching_data_sizes (3 * WIDTH * WIDTH)
                                  (length (filter_alpha data))]\<rparr>)
              \<and> length (tensor_data t) = 3 * WIDTH * WIDTH"
    using L ne imageDataToTensor_main_eq[of "gs\<lparr>imageData := Val data\<rparr>" data data]
    by (simp add: MAX_LENGTH_eq)
  from later first show ?thesis by (rule conjI)
qed

lemma short_buffer_filtered:
  "length (filter_alpha (replicate 200698 0)) = 3 * WIDTH * WIDTH - 4"
  by (simp add: filter_alpha_length WIDTH_def)

text \<open>The amended C2 at a buffer of 200698 zero bytes.\<close>

theorem length_mismatch_logged_not_thrown_witness:
  "length (filter_alpha (replicate 200698 0)) \<noteq> 3 * WIDTH * WIDTH
   \<and> (\<exists>t. imageDataToTensor (replicate 200698 0) DIMS = Inr t
          \<and> length (tensor_data t) = 3 * WIDTH * WIDTH)
   \<and> (\<exists>t. imageDataToTensor_main (replicate 200698 0) DIMS
              (\<lparr>imageData = Undefined, main_console = [], main_target_innerHTML = ''''\<rparr>
                 \<lparr>imageData := Val (replicate 200698 0)\<rparr>)
            = (Inr t, \<lparr>imageData = Undefined, main_console = [], main_target_innerHTML = ''''\<rparr>
                        \<lparr>imageData := Val (replicate 200698 0),
                         main_console :=
                           main_console \<lparr>imageData = Undefined, main_console = [],
                                         main_target_innerHTML = ''''\<rparr> @
                           [Mismatching_data_sizes (3 * WIDTH * WIDTH)
                              (length (filter_alpha (replicate 200698 0)))]\<rparr>)
          \<and> length (tensor_data t) = 3 * WIDTH * WIDTH)"
proof -
  have ne: "length (filter_alpha (replicate 200698 0)) \<noteq> 3 * WIDTH * WIDTH"
    unfolding short_buffer_filtered by (simp add: WIDTH_def)
  note inst = length_mismatch_logged_not_thrown[OF ne,
      of "\<lparr>imageData = Undefined, main_console = [], main_target_innerHTML = ''''\<rparr>"]
  from ne inst show ?thesis by (rule conjI)
qed

text \<open>
  C2 as stated (the operation fails on a mismatching length) does not hold: a buffer of
  200698 bytes has \<open>3 * W * W - 4\<close> bytes left after alpha removal, and both revisions return
  a tensor for it.
\<close>

theorem length_mismatch_counterexample:
  "length (filter_alpha (replicate 200698 0)) = 3 * WIDTH * WIDTH - 4
   \<and> length (filter_alpha (replicate 200698 0)) \<noteq> 3 * WIDTH * WIDTH
   \<and> \<not> isl (imageDataToTensor (replicate 200698 0) DIMS)
   \<and> \<not> isl (fst (imageDataToTensor_main (replicate 200698 0) DIMS
                    \<lparr>imageData = Val (replicate 200698 0), main_console = [],
                     main_target_innerHTML = ''''\<rparr>))"
proof -
  have a: "length (filter_alpha (replicate 200698 0)) = 3 * WIDTH * WIDTH - 4"
    by (rule short_buffer_filtered)
  have b: "length (filter_alpha (replicate 200698 0)) \<noteq> 3 * WIDTH * WIDTH"
    unfolding a by (simp add: WIDTH_def)
  have c: "\<not> isl (imageDataToTensor (replicate 200698 0) DIMS)"
    by (simp add: imageDataToTensor_eq)
  have d: "\<not> isl (fst (imageDataToTensor_main (replicate 200698 0) DIMS
                    \<lparr>imageData = Val (replicate 200698 0), main_console = [],
                     main_target_innerHTML = ''''\<rparr>))"
    by (subst imageDataToTensor_main_eq[where img = "replicate 200698 0"]) simp_all
  from a b c d show ?thesis by (intro conjI)
qed

section \<open>The scan for the maximum\<close>

lemma num_gt_irrefl: "\<not> num_gt a a"
  by (cases a) simp_all

lemma num_gt_trans: "num_gt a b \<Longrightarrow> num_gt b c \<Longrightarrow> num_gt a c"
  by (cases a; cases b; cases c) simp_all

lemma num_gt_total: "a \<noteq> NaN \<Longrightarrow> b \<noteq> NaN \<Longrightarrow> num_gt a b \<or> a = b \<or> num_gt b a"
  by (cases a; cases b) auto

lemma scanned_init: "scanned arr 1 0"
  by (simp add: scanned_def num_gt_irrefl)

lemma scanned_keep:
  assumes "scanned arr i m" "\<not> num_gt (arr ! i) (arr ! m)"
  shows "scanned arr (i + 1) m"
  using assms by (auto simp: scanned_def less_Suc_eq)

lemma scanned_replace:
  assumes sc: "scanned arr i m" and gt: "num_gt (arr ! i) (arr ! m)"
    and mi: "m < i" and il: "i < length arr"
  shows "scanned arr (i + 1) i"
proof -
  have none: "\<not> num_gt (arr ! j) (arr ! i)" if "j < i + 1" for j
  proof (cases "j = i")
    case True
    then show ?thesis by (simp add: num_gt_irrefl)
  next
    case False
    with that have "j < i" by simp
    with sc have "\<not> num_gt (arr ! j) (arr ! m)" by (simp add: scanned_def)
    then show ?thesis using gt num_gt_trans by blast
  qed
  have first: "arr ! j \<noteq> arr ! i" if "j < i" for j
  proof
    assume "arr ! j = arr ! i"
    with gt have "num_gt (arr ! j) (arr ! m)" by simp
    moreover from sc that have "\<not> num_gt (arr ! j) (arr ! m)" by (simp add: scanned_def)
    ultimately show False by simp
  qed
  have strict: "num_gt (arr ! i) (arr ! j)" if nan: "NaN \<notin> set arr" and "j < i" for j
  proof -
    have jl: "j < length arr" using that il by simp
    have ml: "m < length arr" using mi il by simp
    have "arr ! j \<noteq> NaN" "arr ! m \<noteq> NaN"
      using nan jl ml nth_mem by metis+
    moreover from sc that have "\<not> num_gt (arr ! j) (arr ! m)" by (simp add: scanned_def)
    ultimately have "arr ! j = arr ! m \<or> num_gt (arr ! m) (arr ! j)"
      using num_gt_total by blast
    then show ?thesis using gt num_gt_trans by auto
  qed
  show ?thesis
    unfolding scanned_def using none first strict by blast
qed

lemma argMax_loop_scanned:
  "m < i \<Longrightarrow> i \<le> length arr \<Longrightarrow> scanned arr i m \<Longrightarrow>
   \<exists>m'. argMax_loop arr i (Val (arr ! m), m) = (Val (arr ! m'), m')
        \<and> m' < length arr \<and> scanned arr (length arr) m'"
proof (induction arr i "(Val (arr ! m), m)" arbitrary: m rule: argMax_loop.induct)
  case (1 arr i m)
  show ?case
  proof (cases "i < length arr")
    case False
    then have stop: "argMax_loop arr i (Val (arr ! m), m) = (Val (arr ! m), m)"
      by (simp add: argMax_loop.simps[of arr i])
    from False 1(4) have "i = length arr" by simp
    with 1(3,5) have "m < length arr \<and> scanned arr (length arr) m" by simp
    with stop show ?thesis by blast
  next
    case True
    then have ix: "idx arr i = Val (arr ! i)" by (simp add: idx_def)
    show ?thesis
    proof (cases "js_gt (idx arr i) (Val (arr ! m))")
      case gt: True
      then have "num_gt (arr ! i) (arr ! m)" by (simp add: js_gt_def ix)
      from scanned_replace[OF 1(5) this 1(3) True]
      have sc: "scanned arr (i + 1) i" .
      have "\<exists>m'. argMax_loop arr (i + 1) (Val (arr ! i), i) = (Val (arr ! m'), m')
              \<and> m' < length arr \<and> scanned arr (length arr) m'"
        using 1(1)[OF True gt ix] True sc by simp
      then show ?thesis using True gt by (simp add: argMax_loop.simps[of arr i] ix)
    next
      case ngt: False
      then have "\<not> num_gt (arr ! i) (arr ! m)" by (simp add: js_gt_def ix)
      from scanned_keep[OF 1(5) this] have sc: "scanned arr (i + 1) m" .
      have "\<exists>m'. argMax_loop arr (i + 1) (Val (arr ! m), m) = (Val (arr ! m'), m')
              \<and> m' < length arr \<and> scanned arr (length arr) m'"
        using 1(2)[OF True ngt] True sc 1(3) by simp
      then show ?thesis using True ngt by (simp add: argMax_loop.simps[of arr i])
    qed
  qed
qed

lemma argMax_scanned:
  assumes "arr \<noteq> []"
  shows "\<exists>m. argMax arr = (Val (arr ! m), m) \<and> m < length arr \<and> scanned arr (length arr) m"
proof -
  have len: "1 \<le> length arr" using assms by (cases arr) simp_all
  have first: "idx arr 0 = Val (arr ! 0)" using assms by (simp add: idx_def)
  have "\<exists>m. argMax_loop arr 1 (Val (arr ! 0), 0) = (Val (arr ! m), m)
          \<and> m < length arr \<and> scanned arr (length arr) m"
    using len by (intro argMax_loop_scanned scanned_init) simp_all
  then show ?thesis by (simp only: argMax_def first)
qed

lemma indexOfMax_loop_argMax_loop:
  "indexOfMax_loop arr i (s, v, m) = (s', v', m') \<Longrightarrow> argMax_loop arr i (v, m) = (v', m')"
proof (induction arr i "(s, v, m)" arbitrary: s v m rule: indexOfMax_loop.induct)
  case (1 arr i s v m)
  show ?case
  proof (cases "i < length arr")
    case False
    then show ?thesis using 1(3)
      by (simp add: argMax_loop.simps[of arr i] indexOfMax_loop.simps[of arr i])
  next
    case True
    show ?thesis
    proof (cases "js_gt (idx arr i) v")
      case gt: True
      with True 1(3) have "indexOfMax_loop arr (i + 1) (s @ [i], idx arr i, i) = (s', v', m')"
        by (simp add: indexOfMax_loop.simps[of arr i])
      from 1(1)[OF True gt this] show ?thesis
        using True gt by (simp add: argMax_loop.simps[of arr i])
    next
      case ngt: False
      with True 1(3) have "indexOfMax_loop arr (i + 1) (s, v, m) = (s', v', m')"
        by (simp add: indexOfMax_loop.simps[of arr i])
      from 1(2)[OF True ngt this] show ?thesis
        using True ngt by (simp add: argMax_loop.simps[of arr i])
    qed
  qed
qed

lemma indexOfMax_argMax: "fst (indexOfMax arr) = snd (argMax arr)"
proof -
  obtain s v m where r: "indexOfMax_loop arr 1 ([], idx arr 0, 0) = (s, v, m)"
    by (metis prod_cases3)
  from indexOfMax_loop_argMax_loop[OF r] r show ?thesis
    by (simp add: indexOfMax_def argMax_def)
qed

lemma argMax_example:
  "argMax [Fin 0.1, Fin 0.9, Fin 0.9, Fin 0.2] = (Val (Fin 0.9), 1)"
  by (simp add: argMax_def argMax_loop.simps idx_def js_gt_def)

lemma indexOfMax_example:
  "indexOfMax [Fin 0.1, Fin 0.9, Fin 0.9, Fin 0.2] = (1, [1])"
  by (simp add: indexOfMax_def indexOfMax_loop.simps idx_def js_gt_def)

section \<open>The decoded index\<close>

text \<open>
  C3, as amended. For a non-empty vector without NaN, \<^verbatim>\<open>argMax\<close> returns an index \<open>m\<close> of the
  vector with the element there, and \<^verbatim>\<open>indexOfMax\<close> returns the same index. Every element
  equals the element at \<open>m\<close> or is strictly below it, and every earlier element is strictly
  below it: \<open>m\<close> is the first index of the greatest value, a tie going to the lowest index.
  On \<open>[0.1, 0.9, 0.9, 0.2]\<close> the index is 1, not 2.
\<close>

theorem argMax_first_maximal:
  assumes "arr \<noteq> []" and "NaN \<notin> set arr"
  shows "(\<exists>m. argMax arr = (Val (arr ! m), m) \<and> fst (indexOfMax arr) = m \<and> m < length arr
            \<and> first_maximal arr m
            \<and> (\<forall>j < length arr. arr ! j = arr ! m \<or> num_gt (arr ! m) (arr ! j))
            \<and> (\<forall>j < m. num_gt (arr ! m) (arr ! j)))
       \<and> argMax [Fin 0.1, Fin 0.9, Fin 0.9, Fin 0.2] = (Val (Fin 0.9), 1)
       \<and> indexOfMax [Fin 0.1, Fin 0.9, Fin 0.9, Fin 0.2] = (1, [1])"
proof -
  from argMax_scanned[OF assms(1)] obtain m where
    m: "argMax arr = (Val (arr ! m), m)" "m < length arr" "scanned arr (length arr) m"
    by blast
  have idx: "fst (indexOfMax arr) = m" using m(1) by (simp add: indexOfMax_argMax)
  have none: "\<forall>j < length arr. \<not> num_gt (arr ! j) (arr ! m)"
    using m(3) by (simp add: scanned_def)
  have before: "\<forall>j < m. num_gt (arr ! m) (arr ! j)"
    using m(3) assms(2) by (simp add: scanned_def)
  have all: "\<forall>j < length arr. arr ! j = arr ! m \<or> num_gt (arr ! m) (arr ! j)"
  proof (intro allI impI)
    fix j assume j: "j < length arr"
    then have "arr ! j \<noteq> NaN" "arr ! m \<noteq> NaN"
      using assms(2) m(2) nth_mem by metis+
    from num_gt_total[OF this] none j
    show "arr ! j = arr ! m \<or> num_gt (arr ! m) (arr ! j)" by blast
  qed
  have fm: "first_maximal arr m"
  proof -
    have "\<exists>k \<in> set [0..<length arr]. num_gt (arr ! k) (arr ! j)" if "j < m" for j
      using that before m(2) by (intro bexI[of _ m]) simp_all
    then show ?thesis
      unfolding first_maximal_def list_all_iff list_ex_iff
      using m(2) none by simp
  qed
  from m(1,2) idx fm all before
  have "\<exists>m. argMax arr = (Val (arr ! m), m) \<and> fst (indexOfMax arr) = m \<and> m < length arr
            \<and> first_maximal arr m
            \<and> (\<forall>j < length arr. arr ! j = arr ! m \<or> num_gt (arr ! m) (arr ! j))
            \<and> (\<forall>j < m. num_gt (arr ! m) (arr ! j))"
    by blast
  then show ?thesis using argMax_example indexOfMax_example by (intro conjI)
qed

text \<open>The amended C3 at the vector \<open>[0.1, 0.9, 0.9, 0.2]\<close>.\<close>

theorem argMax_first_maximal_witness:
  "[Fin 0.1, Fin 0.9, Fin 0.9, Fin 0.2] \<noteq> []
   \<and> NaN \<notin> set [Fin 0.1, Fin 0.9, Fin 0.9, Fin 0.2]
   \<and> (\<exists>m. argMax [Fin 0.1, Fin 0.9, Fin 0.9, Fin 0.2]
             = (Val ([Fin 0.1, Fin 0.9, Fin 0.9, Fin 0.2] ! m), m)
          \<and> fst (indexOfMax [Fin 0.1, Fin 0.9, Fin 0.9, Fin 0.2]) = m
          \<and> m < length [Fin 0.1, Fin 0.9, Fin 0.9, Fin 0.2]
          \<and> first_maximal [Fin 0.1, Fin 0.9, Fin 0.9, Fin 0.2] m
          \<and> (\<forall>j < length [Fin 0.1, Fin 0.9, Fin 0.9, Fin 0.2].
                [Fin 0.1, Fin 0.9, Fin 0.9, Fin 0.2] ! j = [Fin 0.1, Fin 0.9, Fin 0.9, Fin 0.2] ! m
                \<or> num_gt ([Fin 0.1, Fin 0.9, Fin 0.9, Fin 0.2] ! m)
                          ([Fin 0.1, Fin 0.9, Fin 0.9, Fin 0.2] ! j))
          \<and> (\<forall>j < m. num_gt ([Fin 0.1, Fin 0.9, Fin 0.9, Fin 0.2] ! m)
                              ([Fin 0.1, Fin 0.9, Fin 0.9, Fin 0.2] ! j)))
   \<and> argMax [Fin 0.1, Fin 0.9, Fin 0.9, Fin 0.2] = (Val (Fin 0.9), 1)
   \<and> indexOfMax [Fin 0.1, Fin 0.9, Fin 0.9, Fin 0.2] = (1, [1])"
proof -
  have ne: "[Fin 0.1, Fin 0.9, Fin 0.9, Fin 0.2] \<noteq> []" by simp
  have nn: "NaN \<notin> set [Fin 0.1, Fin 0.9, Fin 0.9, Fin 0.2]" by simp
  note inst = argMax_first_maximal[OF ne nn]
  show ?thesis
    by (intro conjI ne nn conjunct1[OF inst] conjunct1[OF conjunct2[OF inst]]
          conjunct2[OF conjunct2[OF inst]])
qed

text \<open>
  C3 as stated (every non-empty vector) does not hold where the vector has a NaN, which
  compares false with everything. On \<open>[NaN, 1, 2]\<close> the candidate never changes: both
  decoders return index 0, which holds NaN, though 2 at index 2 is the greatest number. On
  \<open>[1, NaN, 2]\<close> both return index 2, though index 1 is the first index whose element no
  element exceeds.
\<close>

theorem argMax_nan_counterexample:
  "argMax [NaN, Fin 1, Fin 2] = (Val NaN, 0)
   \<and> indexOfMax [NaN, Fin 1, Fin 2] = (0, [])
   \<and> num_gt (Fin 2) (Fin 1)
   \<and> \<not> num_gt NaN (Fin 2)
   \<and> argMax [Fin 1, NaN, Fin 2] = (Val (Fin 2), 2)
   \<and> indexOfMax [Fin 1, NaN, Fin 2] = (2, [2])
   \<and> first_maximal [Fin 1, NaN, Fin 2] 1
   \<and> \<not> first_maximal [Fin 1, NaN, Fin 2] (snd (argMax [Fin 1, NaN, Fin 2]))"
proof -
  have a: "argMax [NaN, Fin 1, Fin 2] = (Val NaN, 0)"
    by (simp add: argMax_def argMax_loop.simps idx_def js_gt_def)
  have b: "indexOfMax [NaN, Fin 1, Fin 2] = (0, [])"
    by (simp add: indexOfMax_def indexOfMax_loop.simps idx_def js_gt_def)
  have c: "argMax [Fin 1, NaN, Fin 2] = (Val (Fin 2), 2)"
    by (simp add: argMax_def argMax_loop.simps idx_def js_gt_def)
  have d: "indexOfMax [Fin 1, NaN, Fin 2] = (2, [2])"
    by (simp add: indexOfMax_def indexOfMax_loop.simps idx_def js_gt_def)
  have up3: "[0..<3] = [0, 1, 2]" "[0..<2] = [0, 1]" "[0..<1] = [0]"
    by (simp_all add: upt_rec)
  have e: "first_maximal [Fin 1, NaN, Fin 2] 1"
    by (simp add: first_maximal_def up3)
  have f: "\<not> first_maximal [Fin 1, NaN, Fin 2] (snd (argMax [Fin 1, NaN, Fin 2]))"
    unfolding c by (simp add: first_maximal_def up3)
  from a b c d e f show ?thesis by simp
qed

text \<open>
  C9. For the empty vector \<^verbatim>\<open>argMax\<close> returns index 0 with \<^verbatim>\<open>undefined\<close> as the maximum, and
  \<^verbatim>\<open>indexOfMax\<close> returns index 0 with an empty list: the scan starts at index 1 and never
  runs. A run whose engine gives an empty output vector therefore decodes to the class at
  index 0 and raises nothing.
\<close>

theorem argMax_empty_vector:
  assumes "ort ''src/assets/model.onnx'' = Inr session"
    and "session [''input1'' \<mapsto> inputTensor] = Inr results"
    and "results ''output1'' = Some []"
  shows "argMax [] = (Undefined, 0) \<and> indexOfMax [] = (0, [])
       \<and> run ort classes inputTensor s
           = Inr (s\<lparr>predictedClass := Val (template (idx classes 0)), isRunning := False\<rparr>)
       \<and> run_main ort classes inputTensor g
           = Inr (g\<lparr>main_target_innerHTML := template (idx classes 0)\<rparr>)"
proof -
  have a: "argMax [] = (Undefined, 0)"
    by (simp add: argMax_def argMax_loop.simps idx_def)
  have b: "indexOfMax [] = (0, [])"
    by (simp add: indexOfMax_def indexOfMax_loop.simps idx_def)
  have c: "run ort classes inputTensor s
           = Inr (s\<lparr>predictedClass := Val (template (idx classes 0)), isRunning := False\<rparr>)"
    using assms a by (simp add: run_def run_try_def)
  have d: "run_main ort classes inputTensor g
           = Inr (g\<lparr>main_target_innerHTML := template (idx classes 0)\<rparr>)"
    using assms b by (simp add: run_main_def run_main_try_def)
  from a b c d show ?thesis by (intro conjI)
qed

text \<open>C9 at an engine that always gives the empty vector.\<close>

theorem argMax_empty_vector_witness:
  "constant_engine [] ''src/assets/model.onnx'' = Inr (constant_session [])
   \<and> constant_session [] [''input1'' \<mapsto> blank_tensor] = Inr [''output1'' \<mapsto> []]
   \<and> [''output1'' \<mapsto> ([] :: number list)] ''output1'' = Some []
   \<and> argMax [] = (Undefined, 0) \<and> indexOfMax [] = (0, [])
   \<and> run (constant_engine []) [''tench'', ''goldfish''] blank_tensor
         (file_in_onchange True (initial_state ''''))
       = Inr ((file_in_onchange True (initial_state ''''))
                \<lparr>predictedClass := Val (template (idx [''tench'', ''goldfish''] 0)),
                 isRunning := False\<rparr>)
   \<and> run_main (constant_engine []) [''tench'', ''goldfish''] blank_tensor
         \<lparr>imageData = Undefined, main_console = [], main_target_innerHTML = ''''\<rparr>
       = Inr (\<lparr>imageData = Undefined, main_console = [], main_target_innerHTML = ''''\<rparr>
                \<lparr>main_target_innerHTML := template (idx [''tench'', ''goldfish''] 0)\<rparr>)"
proof -
  have h1: "constant_engine [] ''src/assets/model.onnx'' = Inr (constant_session [])"
    by (simp add: constant_engine_def)
  have h2: "constant_session [] [''input1'' \<mapsto> blank_tensor] = Inr [''output1'' \<mapsto> []]"
    by (simp add: constant_session_def)
  have h3: "[''output1'' \<mapsto> ([] :: number list)] ''output1'' = Some []"
    by simp
  note inst = argMax_empty_vector[where ort = "constant_engine []"
      and session = "constant_session []" and inputTensor = blank_tensor
      and results = "[''output1'' \<mapsto> []]" and classes = "[''tench'', ''goldfish'']"
      and s = "file_in_onchange True (initial_state '''')"
      and g = "\<lparr>imageData = Undefined, main_console = [], main_target_innerHTML = ''''\<rparr>",
      OF h1 h2 h3]
  from h1 h2 h3 inst show ?thesis by (intro conjI) (simp_all only:)
qed

text \<open>
  C7. The decoder is deterministic: the label a run writes is a function of the output
  vector and the class table alone. Two runs whose engines give the same output vector
  write the same label, whatever state each starts from (an earlier label, the busy flag,
  the console) and whichever tensor each was fed; \<^verbatim>\<open>indexOfMax\<close> and \<^verbatim>\<open>argMax\<close> give the same
  index.
\<close>

theorem decoder_deterministic:
  assumes "ort1 ''src/assets/model.onnx'' = Inr session1"
    and "session1 [''input1'' \<mapsto> tensor1] = Inr results1"
    and "results1 ''output1'' = Some output"
    and "ort2 ''src/assets/model.onnx'' = Inr session2"
    and "session2 [''input1'' \<mapsto> tensor2] = Inr results2"
    and "results2 ''output1'' = Some output"
  shows "(\<exists>s1' s2'. run ort1 classes tensor1 s1 = Inr s1' \<and> run ort2 classes tensor2 s2 = Inr s2'
            \<and> predictedClass s1' = Val (template (idx classes (snd (argMax output))))
            \<and> predictedClass s2' = predictedClass s1')
       \<and> (\<exists>g1' g2'. run_main ort1 classes tensor1 g1 = Inr g1'
            \<and> run_main ort2 classes tensor2 g2 = Inr g2'
            \<and> main_target_innerHTML g1' = template (idx classes (fst (indexOfMax output)))
            \<and> main_target_innerHTML g2' = main_target_innerHTML g1')
       \<and> fst (indexOfMax output) = snd (argMax output)"
proof -
  have r1: "run ort1 classes tensor1 s1
            = Inr (s1\<lparr>predictedClass := Val (template (idx classes (snd (argMax output)))),
                      isRunning := False\<rparr>)"
    using assms(1-3) by (simp add: run_def run_try_def split: prod.split)
  have r2: "run ort2 classes tensor2 s2
            = Inr (s2\<lparr>predictedClass := Val (template (idx classes (snd (argMax output)))),
                      isRunning := False\<rparr>)"
    using assms(4-6) by (simp add: run_def run_try_def split: prod.split)
  have m1: "run_main ort1 classes tensor1 g1
            = Inr (g1\<lparr>main_target_innerHTML := template (idx classes (fst (indexOfMax output)))\<rparr>)"
    using assms(1-3) by (simp add: run_main_def run_main_try_def split: prod.split)
  have m2: "run_main ort2 classes tensor2 g2
            = Inr (g2\<lparr>main_target_innerHTML := template (idx classes (fst (indexOfMax output)))\<rparr>)"
    using assms(4-6) by (simp add: run_main_def run_main_try_def split: prod.split)
  have later: "\<exists>s1' s2'. run ort1 classes tensor1 s1 = Inr s1' \<and> run ort2 classes tensor2 s2 = Inr s2'
            \<and> predictedClass s1' = Val (template (idx classes (snd (argMax output))))
            \<and> predictedClass s2' = predictedClass s1'"
    unfolding r1 r2 by simp
  have first: "\<exists>g1' g2'. run_main ort1 classes tensor1 g1 = Inr g1'
            \<and> run_main ort2 classes tensor2 g2 = Inr g2'
            \<and> main_target_innerHTML g1' = template (idx classes (fst (indexOfMax output)))
            \<and> main_target_innerHTML g2' = main_target_innerHTML g1'"
    unfolding m1 m2 by simp
  from later first indexOfMax_argMax[of "output"] show ?thesis by (intro conjI)
qed

text \<open>C7 at two runs on \<open>[0.1, 0.9, 0.9, 0.2]\<close> from different states.\<close>

theorem decoder_deterministic_witness:
  "constant_engine [Fin 0.1, Fin 0.9, Fin 0.9, Fin 0.2] ''src/assets/model.onnx''
     = Inr (constant_session [Fin 0.1, Fin 0.9, Fin 0.9, Fin 0.2])
   \<and> constant_session [Fin 0.1, Fin 0.9, Fin 0.9, Fin 0.2] [''input1'' \<mapsto> blank_tensor]
     = Inr [''output1'' \<mapsto> [Fin 0.1, Fin 0.9, Fin 0.9, Fin 0.2]]
   \<and> [''output1'' \<mapsto> [Fin 0.1, Fin 0.9, Fin 0.9, Fin 0.2]] ''output1''
     = Some [Fin 0.1, Fin 0.9, Fin 0.9, Fin 0.2]
   \<and> (\<exists>s1' s2'.
         run (constant_engine [Fin 0.1, Fin 0.9, Fin 0.9, Fin 0.2]) [''tench'', ''goldfish'']
           blank_tensor (initial_state '''') = Inr s1'
       \<and> run (constant_engine [Fin 0.1, Fin 0.9, Fin 0.9, Fin 0.2]) [''tench'', ''goldfish'']
           blank_tensor
           (file_in_onchange True ((initial_state ''<p>'')\<lparr>predictedClass := Val ''tench''\<rparr>))
           = Inr s2'
       \<and> predictedClass s1'
           = Val (template (idx [''tench'', ''goldfish'']
                    (snd (argMax [Fin 0.1, Fin 0.9, Fin 0.9, Fin 0.2]))))
       \<and> predictedClass s2' = predictedClass s1')
   \<and> (\<exists>g1' g2'.
         run_main (constant_engine [Fin 0.1, Fin 0.9, Fin 0.9, Fin 0.2]) [''tench'', ''goldfish'']
           blank_tensor
           \<lparr>imageData = Undefined, main_console = [], main_target_innerHTML = ''''\<rparr> = Inr g1'
       \<and> run_main (constant_engine [Fin 0.1, Fin 0.9, Fin 0.9, Fin 0.2]) [''tench'', ''goldfish'']
           blank_tensor
           \<lparr>imageData = Val [], main_console = [], main_target_innerHTML = ''tench''\<rparr> = Inr g2'
       \<and> main_target_innerHTML g1'
           = template (idx [''tench'', ''goldfish'']
               (fst (indexOfMax [Fin 0.1, Fin 0.9, Fin 0.9, Fin 0.2])))
       \<and> main_target_innerHTML g2' = main_target_innerHTML g1')
   \<and> fst (indexOfMax [Fin 0.1, Fin 0.9, Fin 0.9, Fin 0.2])
       = snd (argMax [Fin 0.1, Fin 0.9, Fin 0.9, Fin 0.2])"
proof -
  let ?out = "[Fin 0.1, Fin 0.9, Fin 0.9, Fin 0.2]"
  have h1: "constant_engine ?out ''src/assets/model.onnx'' = Inr (constant_session ?out)"
    by (simp add: constant_engine_def)
  have h2: "constant_session ?out [''input1'' \<mapsto> blank_tensor] = Inr [''output1'' \<mapsto> ?out]"
    by (simp add: constant_session_def)
  have h3: "[''output1'' \<mapsto> ?out] ''output1'' = Some ?out"
    by simp
  note inst = decoder_deterministic[where ?ort1.0 = "constant_engine ?out"
      and ?session1.0 = "constant_session ?out" and ?tensor1.0 = blank_tensor
      and ?results1.0 = "[''output1'' \<mapsto> ?out]"
      and ?ort2.0 = "constant_engine ?out"
      and ?session2.0 = "constant_session ?out" and ?tensor2.0 = blank_tensor
      and ?results2.0 = "[''output1'' \<mapsto> ?out]"
      and classes = "[''tench'', ''goldfish'']"
      and ?s1.0 = "initial_state ''''"
      and ?s2.0 = "file_in_onchange True ((initial_state ''<p>'')\<lparr>predictedClass := Val ''tench''\<rparr>)"
      and ?g1.0 = "\<lparr>imageData = Undefined, main_console = [], main_target_innerHTML = ''''\<rparr>"
      and ?g2.0 = "\<lparr>imageData = Val [], main_console = [], main_target_innerHTML = ''tench''\<rparr>",
      OF h1 h2 h3 h1 h2 h3]
  show ?thesis
    by (intro conjI h1 h2 h3 conjunct1[OF inst] conjunct1[OF conjunct2[OF inst]]
          conjunct2[OF conjunct2[OF inst]])
qed

section \<open>Failures of the engine\<close>

text \<open>
  C5, as amended. A failure of the engine, of the session load or of the run, is caught
  inside \<^verbatim>\<open>run\<close>: \<^verbatim>\<open>run\<close> returns normally, the exception is reported with \<^verbatim>\<open>console.error\<close>
  and nowhere else, and the busy flag is cleared. The page shows no error: the label is left
  as it was, and the next status display is the one the page would show had the request
  not been made. On every path of \<^verbatim>\<open>run\<close>, the success path included, \<^verbatim>\<open>run\<close> returns
  normally with the busy flag off, and the next status display is the one of the idle state,
  not the busy indicator. The first revision has no busy flag; its \<^verbatim>\<open>run\<close> catches and logs
  the failure in the same way.
\<close>

theorem engine_failure_caught:
  assumes "ort ''src/assets/model.onnx'' = Inl e
           \<or> (\<exists>session. ort ''src/assets/model.onnx'' = Inr session
                 \<and> session [''input1'' \<mapsto> inputTensor] = Inl e)"
  shows "run ort classes inputTensor s
           = Inr (s\<lparr>console := console s @ [Logged e], isRunning := False\<rparr>)
       \<and> target_innerHTML
            (setInterval_callback (s\<lparr>console := console s @ [Logged e], isRunning := False\<rparr>))
           = target_innerHTML (setInterval_callback (s\<lparr>isRunning := False\<rparr>))
       \<and> run_main ort classes inputTensor g
           = Inr (g\<lparr>main_console := main_console g @ [Logged e]\<rparr>)
       \<and> (\<exists>s'. run ort' classes inputTensor s = Inr s' \<and> isRunning s' = False
              \<and> target_innerHTML (setInterval_callback s')
                  = (if predictedClass s' \<noteq> Val ''undefined''
                     then ''<h3>I think it's a '' @ template (predictedClass s') @ ''!''
                     else ''''))
       \<and> (\<exists>g'. run_main ort' classes inputTensor g = Inr g')"
proof -
  have a: "run ort classes inputTensor s
           = Inr (s\<lparr>console := console s @ [Logged e], isRunning := False\<rparr>)"
    using assms by (auto simp: run_def run_try_def)
  have a': "target_innerHTML
            (setInterval_callback (s\<lparr>console := console s @ [Logged e], isRunning := False\<rparr>))
           = target_innerHTML (setInterval_callback (s\<lparr>isRunning := False\<rparr>))"
    by (simp add: setInterval_callback_def)
  have b: "run_main ort classes inputTensor g
           = Inr (g\<lparr>main_console := main_console g @ [Logged e]\<rparr>)"
    using assms by (auto simp: run_main_def run_main_try_def)
  have c: "\<exists>s'. run ort' classes inputTensor s = Inr s' \<and> isRunning s' = False
              \<and> target_innerHTML (setInterval_callback s')
                  = (if predictedClass s' \<noteq> Val ''undefined''
                     then ''<h3>I think it's a '' @ template (predictedClass s') @ ''!''
                     else '''')"
  proof -
    have "\<exists>s'. run ort' classes inputTensor s = Inr s' \<and> isRunning s' = False"
      by (simp add: run_def run_try_def split: sum.split option.split prod.split)
    then obtain s' where s': "run ort' classes inputTensor s = Inr s'" "isRunning s' = False"
      by blast
    from s'(2) have "target_innerHTML (setInterval_callback s')
                  = (if predictedClass s' \<noteq> Val ''undefined''
                     then ''<h3>I think it's a '' @ template (predictedClass s') @ ''!''
                     else '''')"
      by (simp add: setInterval_callback_def)
    with s' show ?thesis by blast
  qed
  have d: "\<exists>g'. run_main ort' classes inputTensor g = Inr g'"
    by (simp add: run_main_def run_main_try_def split: sum.split option.split prod.split)
  from a a' b c d show ?thesis by (intro conjI)
qed

text \<open>The amended C5 at an engine whose session run throws, from the busy state.\<close>

theorem engine_failure_caught_witness:
  "(failing_run ''src/assets/model.onnx'' = Inl (Error ''invalid input shape'')
    \<or> (\<exists>session. failing_run ''src/assets/model.onnx'' = Inr session
          \<and> session [''input1'' \<mapsto> blank_tensor] = Inl (Error ''invalid input shape'')))
   \<and> run failing_run [''tench'', ''goldfish''] blank_tensor second_request
       = Inr (second_request
                \<lparr>console := console second_request @ [Logged (Error ''invalid input shape'')],
                 isRunning := False\<rparr>)
   \<and> target_innerHTML
        (setInterval_callback
           (second_request
              \<lparr>console := console second_request @ [Logged (Error ''invalid input shape'')],
               isRunning := False\<rparr>))
       = target_innerHTML (setInterval_callback (second_request\<lparr>isRunning := False\<rparr>))
   \<and> run_main failing_run [''tench'', ''goldfish''] blank_tensor
         \<lparr>imageData = Undefined, main_console = [], main_target_innerHTML = ''''\<rparr>
       = Inr (\<lparr>imageData = Undefined, main_console = [], main_target_innerHTML = ''''\<rparr>
                \<lparr>main_console :=
                   main_console \<lparr>imageData = Undefined, main_console = [],
                                 main_target_innerHTML = ''''\<rparr> @
                   [Logged (Error ''invalid input shape'')]\<rparr>)
   \<and> (\<exists>s'. run (constant_engine [Fin 1]) [''tench'', ''goldfish''] blank_tensor
               second_request = Inr s'
          \<and> isRunning s' = False
          \<and> target_innerHTML (setInterval_callback s')
              = (if predictedClass s' \<noteq> Val ''undefined''
                 then ''<h3>I think it's a '' @ template (predictedClass s') @ ''!''
                 else ''''))
   \<and> (\<exists>g'. run_main (constant_engine [Fin 1]) [''tench'', ''goldfish''] blank_tensor
               \<lparr>imageData = Undefined, main_console = [], main_target_innerHTML = ''''\<rparr>
             = Inr g')"
proof -
  have h: "failing_run ''src/assets/model.onnx'' = Inl (Error ''invalid input shape'')
    \<or> (\<exists>session. failing_run ''src/assets/model.onnx'' = Inr session
          \<and> session [''input1'' \<mapsto> blank_tensor] = Inl (Error ''invalid input shape''))"
    by (simp add: failing_run_def failing_session_def)
  note inst = engine_failure_caught[where ort = failing_run
      and e = "Error ''invalid input shape''" and inputTensor = blank_tensor
      and classes = "[''tench'', ''goldfish'']"
      and s = second_request
      and g = "\<lparr>imageData = Undefined, main_console = [], main_target_innerHTML = ''''\<rparr>"
      and ort' = "constant_engine [Fin 1]", OF h]
  from h inst show ?thesis by (rule conjI)
qed

text \<open>
  C5 as stated (the failure is surfaced as a visible error state) does not hold. A second
  image is chosen after a first one was labelled \<open>tench\<close>, and the run of the engine throws:
  the exception goes to the console, and the page then shows the result message with the
  old label, the very page it shows after a run that succeeds with the label \<open>tench\<close>.
\<close>

theorem failure_not_shown_counterexample:
  "run failing_run [''tench'', ''goldfish''] blank_tensor second_request
     = Inr (second_request\<lparr>console := [Logged (Error ''invalid input shape'')],
                           isRunning := False\<rparr>)
   \<and> target_innerHTML
        (setInterval_callback
           (second_request\<lparr>console := [Logged (Error ''invalid input shape'')],
                           isRunning := False\<rparr>))
       = ''<h3>I think it's a tench!''
   \<and> run (constant_engine [Fin 1]) [''tench'', ''goldfish''] blank_tensor second_request
     = Inr (second_request\<lparr>predictedClass := Val ''tench'', isRunning := False\<rparr>)
   \<and> target_innerHTML
        (setInterval_callback
           (second_request\<lparr>predictedClass := Val ''tench'', isRunning := False\<rparr>))
       = ''<h3>I think it's a tench!''"
proof -
  have a: "run failing_run [''tench'', ''goldfish''] blank_tensor second_request
     = Inr (second_request\<lparr>console := [Logged (Error ''invalid input shape'')],
                           isRunning := False\<rparr>)"
    by (simp add: run_def run_try_def failing_run_def failing_session_def second_request_def
        file_in_onchange_def initial_state_def)
  have b: "target_innerHTML
        (setInterval_callback
           (second_request\<lparr>console := [Logged (Error ''invalid input shape'')],
                           isRunning := False\<rparr>))
       = ''<h3>I think it's a tench!''"
    by (simp add: setInterval_callback_def second_request_def file_in_onchange_def
        initial_state_def)
  have am: "argMax [Fin 1] = (Val (Fin 1), 0)"
    by (simp add: argMax_def argMax_loop.simps idx_def)
  have c: "run (constant_engine [Fin 1]) [''tench'', ''goldfish''] blank_tensor second_request
     = Inr (second_request\<lparr>predictedClass := Val ''tench'', isRunning := False\<rparr>)"
    by (simp add: run_def run_try_def constant_engine_def constant_session_def am idx_def)
  have d: "target_innerHTML
        (setInterval_callback
           (second_request\<lparr>predictedClass := Val ''tench'', isRunning := False\<rparr>))
       = ''<h3>I think it's a tench!''"
    by (simp add: setInterval_callback_def)
  from a b c d show ?thesis by (intro conjI)
qed

section \<open>The status display before any request\<close>

text \<open>
  C10. In the initial state (not busy, \<^verbatim>\<open>predictedClass\<close> still \<^verbatim>\<open>undefined\<close>) the status display
  takes the result branch, not the empty branch: the comparison is with the string
  \<^verbatim>\<open>"undefined"\<close>, which the value \<^verbatim>\<open>undefined\<close> differs from. The page then shows the result
  message with the unset value interpolated, and not the empty string.
\<close>

theorem initial_status_shows_result_message:
  \<open>isRunning (initial_state html) = False
   \<and> predictedClass (initial_state html) = Undefined
   \<and> target_innerHTML (setInterval_callback (initial_state html))
       = ''<h3>I think it's a undefined!''
   \<and> target_innerHTML (setInterval_callback (initial_state html)) \<noteq> ''''\<close>
  by (simp add: initial_state_def setInterval_callback_def)

end
